theory Spec2Isabelle
  imports Main "HOL-Library.AList" "HOL-Library.Finite_Map"
begin

section \<open>Shared data\<close>

text \<open>
  Every function of the repository signals failure by raising; the model returns the
  exception as a value.  The two wrappers \<open>Failed_to_extract_PDF\<close> and
  \<open>Failed_to_index_document\<close> are the \<^verbatim>\<open>raise Exception(f"Failed to ...")\<close> of
  \<^verbatim>\<open>extract_pdf\<close> and \<^verbatim>\<open>VectorDB.index\<close>; \<open>Failed_to_setup_Pinecone\<close> is the one of
  \<^verbatim>\<open>setup_pinecone\<close>.  The others are raised by Python itself or by a library call.
\<close>

datatype exn =
    TypeError
  | OSError
  | LoaderError
  | ApiError
  | Failed_to_extract_PDF exn
  | Failed_to_setup_Pinecone exn
  | Failed_to_index_document exn

type_synonym bytes = string

text \<open>
  A LangChain \<^verbatim>\<open>Document\<close>: its text and the two metadata entries the indexing path
  reads, the \<^verbatim>\<open>source\<close> (document identity) and the position of the text in its source.
\<close>

record document =
  page_content :: string
  source :: string
  position :: nat

section \<open>pdf\_handler.py\<close>

subsection \<open>The chunker\<close>

text \<open>
  Modelled from the spec: the text splitter.  \<^verbatim>\<open>split_pdf\<close> builds a
  \<^verbatim>\<open>RecursiveCharacterTextSplitter\<close>, a class of the \<^verbatim>\<open>langchain_text_splitters\<close> library
  that is not part of the sources; only its configuration (window 512, overlap 64, length
  in characters) is.  The policy below is the one of section 4.1 of the specification:
  the text is scanned from its start, overlapping windows of the configured size are
  emitted until the end is reached, and the last window may be shorter.  The scan
  advances by \<open>size - overlap\<close>; the specification requires \<open>overlap < size\<close>, and outside
  that configuration the scan stops after its first window.
\<close>

function windows :: "nat \<Rightarrow> nat \<Rightarrow> nat \<Rightarrow> nat \<Rightarrow> (nat \<times> nat) list" where
  "windows chunk_size chunk_overlap n s =
     (if n \<le> s then []
      else if chunk_overlap < chunk_size \<and> s + chunk_size < n
        then (s, s + chunk_size)
               # windows chunk_size chunk_overlap n (s + (chunk_size - chunk_overlap))
      else [(s, min (s + chunk_size) n)])"
  by pat_completeness auto
termination
  by (relation "measure (\<lambda>(chunk_size, chunk_overlap, n, s). n - s)") auto

declare windows.simps [simp del]

definition split_text :: "nat \<Rightarrow> nat \<Rightarrow> document \<Rightarrow> document list" where
  "split_text chunk_size chunk_overlap d =
     map (\<lambda>(a, b). \<lparr>page_content = take (b - a) (drop a (page_content d)),
                     source = source d, position = a\<rparr>)
         (windows chunk_size chunk_overlap (length (page_content d)) 0)"

definition split_documents :: "nat \<Rightarrow> nat \<Rightarrow> document list \<Rightarrow> exn + document list" where
  "split_documents chunk_size chunk_overlap docs =
     Inr (concat (map (split_text chunk_size chunk_overlap) docs))"

text \<open>The character span \<open>[a, b)\<close> of a chunk in its source document.\<close>

definition span :: "document \<Rightarrow> nat \<times> nat" where
  "span c = (position c, position c + length (page_content c))"

text \<open>
  \<^verbatim>\<open>split_pdf\<close> itself, with the library's splitter as the parameter \<open>splitter\<close>
  (called with \<^verbatim>\<open>chunk_size=512, chunk_overlap=64\<close>): an empty list is returned as it is,
  before any splitter is built.
\<close>

definition split_pdf ::
  "(nat \<Rightarrow> nat \<Rightarrow> document list \<Rightarrow> exn + document list) \<Rightarrow> document list
     \<Rightarrow> exn + document list" where
  "split_pdf splitter pdfs = (if pdfs = [] then Inr [] else splitter 512 64 pdfs)"

subsection \<open>Extraction of the uploaded files\<close>

text \<open>
  What \<^verbatim>\<open>extract_pdf\<close> may receive as one file: a Streamlit \<^verbatim>\<open>UploadedFile\<close> (it has
  \<^verbatim>\<open>name\<close> and \<^verbatim>\<open>getvalue\<close>), raw bytes, or any other object, which the code also
  takes for raw bytes and on which \<^verbatim>\<open>w.write(content)\<close> raises \<^verbatim>\<open>TypeError\<close>.
  The argument of \<^verbatim>\<open>extract_pdf\<close> is a list of files or a single file.
\<close>

datatype upload = UploadedFile (name: string) (getvalue: bytes) | RawBytes bytes | NotBytes

datatype uploaded = Single upload | Many "upload list"

text \<open>
  The part of the file system the code touches: the temporary directories, each with
  its files.  A directory \<^verbatim>\<open>pdf_extract_<n>\<close> is named by its number \<open>n\<close>, a file
  \<^verbatim>\<open><uuid>_<name>\<close> by the pair of its uuid and name.  \<open>uuid_supply\<close> is the next
  value of \<^verbatim>\<open>uuid.uuid4()\<close>: the model takes the uuids of one process to be pairwise
  different.  \<open>rejects\<close> tells the names under which the file system lets no file be
  opened (a name that is too long, or not a name at all): \<^verbatim>\<open>open\<close> raises \<^verbatim>\<open>OSError\<close> on
  them.  Creating and removing a directory do not fail in the model.
\<close>

type_synonym filename = "nat \<times> string"

record filesystem =
  dirs :: "(nat \<times> (filename \<times> bytes) list) list"
  uuid_supply :: nat
  rejects :: "string \<Rightarrow> bool"

text \<open>\<^verbatim>\<open>tempfile.mkdtemp\<close>: creates a directory that did not exist.\<close>

definition mkdtemp :: "filesystem \<Rightarrow> nat \<times> filesystem" where
  "mkdtemp s =
     (let d = Suc (fold max (map fst (dirs s)) 0)
      in (d, s\<lparr>dirs := (d, []) # dirs s\<rparr>))"

text \<open>\<^verbatim>\<open>open(file_path, 'wb')\<close> followed by \<^verbatim>\<open>w.write(content)\<close>.\<close>

definition write_file :: "nat \<Rightarrow> filename \<Rightarrow> bytes \<Rightarrow> filesystem \<Rightarrow> filesystem" where
  "write_file d f content s =
     s\<lparr>dirs := map (\<lambda>(d', files). if d' = d then (d', AList.update f content files)
                                   else (d', files)) (dirs s)\<rparr>"

text \<open>\<^verbatim>\<open>shutil.rmtree(temp_dir, ignore_errors=True)\<close>.\<close>

definition rmtree :: "nat \<Rightarrow> filesystem \<Rightarrow> filesystem" where
  "rmtree d s = s\<lparr>dirs := filter (\<lambda>(d', files). d' \<noteq> d) (dirs s)\<rparr>"

text \<open>
  The name a file gets after its uuid (\<^verbatim>\<open>file.name\<close>, or \<^verbatim>\<open>uploaded.pdf\<close> for what is
  taken for raw bytes) and the content that is written.
\<close>

fun name_of :: "upload \<Rightarrow> string" where
  "name_of (UploadedFile nm content) = nm"
| "name_of (RawBytes content) = ''uploaded.pdf''"
| "name_of NotBytes = ''uploaded.pdf''"

fun content_of :: "upload \<Rightarrow> bytes" where
  "content_of (UploadedFile nm content) = content"
| "content_of (RawBytes content) = content"
| "content_of NotBytes = []"

text \<open>
  The loop of \<^verbatim>\<open>extract_pdf\<close>.  It stops at the first file on which \<^verbatim>\<open>open\<close> or
  \<^verbatim>\<open>write\<close> raises; when it is \<^verbatim>\<open>write\<close>, the file has been opened, hence created empty,
  by then.
\<close>

fun write_uploads ::
  "nat \<Rightarrow> upload list \<Rightarrow> filesystem \<Rightarrow> (exn \<times> filesystem) + filesystem" where
  "write_uploads temp_dir [] s = Inr s"
| "write_uploads temp_dir (file # rest) s =
     (let unique_id = uuid_supply s;
          s1 = s\<lparr>uuid_supply := Suc unique_id\<rparr>;
          file_path = (unique_id, name_of file)
      in if rejects s (name_of file) then Inl (OSError, s1)
         else if file = NotBytes then Inl (TypeError, write_file temp_dir file_path [] s1)
         else write_uploads temp_dir rest (write_file temp_dir file_path (content_of file) s1))"

definition as_list :: "uploaded \<Rightarrow> upload list" where
  "as_list uploaded_pdf = (case uploaded_pdf of Many files \<Rightarrow> files | Single file \<Rightarrow> [file])"

definition extract_pdf :: "uploaded \<Rightarrow> filesystem \<Rightarrow> (exn \<times> filesystem) + (nat \<times> filesystem)" where
  "extract_pdf uploaded_pdf s =
     (let (temp_dir, s1) = mkdtemp s
      in case write_uploads temp_dir (as_list uploaded_pdf) s1 of
           Inl (e, s2) \<Rightarrow> Inl (Failed_to_extract_PDF e, rmtree temp_dir s2)
         | Inr s2 \<Rightarrow> Inr (temp_dir, s2))"

text \<open>The files of a directory.\<close>

definition files_of :: "nat \<Rightarrow> filesystem \<Rightarrow> (filename \<times> bytes) list" where
  "files_of d s = (case map_of (dirs s) d of None \<Rightarrow> [] | Some files \<Rightarrow> files)"

text \<open>
  The files a loop that raises on none of its inputs leaves in the directory, in the
  order of the upload.
\<close>

fun written :: "nat \<Rightarrow> upload list \<Rightarrow> (filename \<times> bytes) list" where
  "written u [] = []"
| "written u (file # rest) = ((u, name_of file), content_of file) # written (Suc u) rest"

text \<open>
  \<^verbatim>\<open>load_pdf_directory\<close>: the \<^verbatim>\<open>PyPDFDirectoryLoader\<close> of the library is the parameter
  \<open>loader\<close>; it is given the directory and reads the files in it.
\<close>

definition load_pdf_directory ::
  "(nat \<Rightarrow> (filename \<times> bytes) list \<Rightarrow> exn + document list) \<Rightarrow> nat \<Rightarrow> filesystem
     \<Rightarrow> exn + document list" where
  "load_pdf_directory loader directory s = loader directory (files_of directory s)"

section \<open>vectorstore.py\<close>

subsection \<open>Setting up the backends\<close>

text \<open>
  The calls the set-up code makes on the Pinecone client, on the file system and on the
  two stores.  The Pinecone service is the table of its indexes with the dimension each
  was created with; \<open>failing\<close> tells which calls of the client raise, and \<open>calls\<close> is
  the log of the calls made so far, oldest first.
\<close>

datatype call =
    ListIndexes
  | DescribeIndex string
  | DeleteIndex string
  | CreateIndex string nat string bool
  | OpenIndex string
  | MakeDirs string
  | OpenChroma string string
  | CreateSchema string string

record services =
  indexes :: "(string \<times> nat) list"
  failing :: "call \<Rightarrow> bool"
  calls :: "call list"

datatype vectorstore = PineconeVectorStore string | Chroma string string

definition called :: "call \<Rightarrow> services \<Rightarrow> services" where
  "called c pc = pc\<lparr>calls := calls pc @ [c]\<rparr>"

definition delete_index :: "string \<Rightarrow> services \<Rightarrow> services" where
  "delete_index index_name pc =
     called (DeleteIndex index_name) (pc\<lparr>indexes := AList.delete index_name (indexes pc)\<rparr>)"

definition create_index :: "string \<Rightarrow> nat \<Rightarrow> string \<Rightarrow> bool \<Rightarrow> services \<Rightarrow> services" where
  "create_index index_name dimension metric serverless pc =
     called (CreateIndex index_name dimension metric serverless)
       (pc\<lparr>indexes := AList.update index_name dimension (indexes pc)\<rparr>)"

text \<open>
  \<^verbatim>\<open>setup_pinecone\<close>.  A failure of \<^verbatim>\<open>describe_index\<close> is caught inside (a warning
  is printed and \<^verbatim>\<open>current_dim\<close> stays \<^verbatim>\<open>None\<close>); any other failure leaves through the
  outer handler as \<^verbatim>\<open>Exception("Failed to setup Pinecone: ...")\<close>.  The test
  \<^verbatim>\<open>index_exists and current_dim and current_dim != embedding_dim\<close> is false for a
  dimension that is \<^verbatim>\<open>None\<close> or \<open>0\<close>.
\<close>

definition setup_pinecone ::
  "string \<Rightarrow> nat \<Rightarrow> string \<Rightarrow> bool \<Rightarrow> services \<Rightarrow> (exn + vectorstore) \<times> services" where
  "setup_pinecone index_name embedding_dim metric use_serverless pc =
     (let pc1 = called ListIndexes pc in
      if failing pc ListIndexes then (Inl (Failed_to_setup_Pinecone ApiError), pc1)
      else
        let index_exists = (index_name \<in> set (map fst (indexes pc1)));
            current_dim =
              (if index_exists \<and> \<not> failing pc (DescribeIndex index_name)
               then map_of (indexes pc1) index_name else None);
            pc2 = (if index_exists then called (DescribeIndex index_name) pc1 else pc1);
            mismatch =
              (index_exists \<and>
               (case current_dim of None \<Rightarrow> False | Some d \<Rightarrow> d \<noteq> 0 \<and> d \<noteq> embedding_dim))
        in
        if mismatch \<and> failing pc (DeleteIndex index_name)
        then (Inl (Failed_to_setup_Pinecone ApiError), called (DeleteIndex index_name) pc2)
        else
          let pc3 = (if mismatch then delete_index index_name pc2 else pc2);
              index_exists = (index_exists \<and> \<not> mismatch);
              create = CreateIndex index_name embedding_dim metric use_serverless
          in
          if \<not> index_exists \<and> failing pc create
          then (Inl (Failed_to_setup_Pinecone ApiError), called create pc3)
          else
            let pc4 = (if \<not> index_exists
                       then create_index index_name embedding_dim metric use_serverless pc3
                       else pc3);
                pc5 = called (OpenIndex index_name) pc4
            in
            if failing pc (OpenIndex index_name)
            then (Inl (Failed_to_setup_Pinecone ApiError), pc5)
            else (Inr (PineconeVectorStore index_name), pc5))"

text \<open>
  Python's \<^verbatim>\<open>if not directory: directory = default\<close>, for an argument that is \<^verbatim>\<open>None\<close>
  or a string.
\<close>

definition or_default :: "string option \<Rightarrow> string \<Rightarrow> string" where
  "or_default directory dflt =
     (case directory of None \<Rightarrow> dflt | Some d \<Rightarrow> if d = [] then dflt else d)"

text \<open>\<^verbatim>\<open>setup_chroma\<close>: it receives no embedding dimension.\<close>

definition setup_chroma :: "string \<Rightarrow> string option \<Rightarrow> services \<Rightarrow> vectorstore \<times> services" where
  "setup_chroma index_name persist_directory pc =
     (let persist_directory = or_default persist_directory ''./.cache/database''
      in (Chroma index_name persist_directory,
          called (OpenChroma index_name persist_directory)
            (called (MakeDirs persist_directory) pc)))"

text \<open>
  \<^verbatim>\<open>VectorDB.__init__\<close>.  \<^verbatim>\<open>load_config\<close> is defined in \<^verbatim>\<open>src/utils.py\<close>, which is not
  among the sources: the part of the configuration that is read,
  \<^verbatim>\<open>config['embedding_model']\<close>, is the parameter \<open>config\<close>.
\<close>

record config =
  model_name :: string
  dimensions :: "nat option"

record VectorDB =
  cache_dir :: string
  the_vectorstore :: vectorstore
  namespace :: string

definition VectorDB_init ::
  "config \<Rightarrow> string \<Rightarrow> string \<Rightarrow> string option \<Rightarrow> services \<Rightarrow> (exn + VectorDB) \<times> services" where
  "VectorDB_init config db_name index_name cache_dir_arg pc =
     (let cache_dir = or_default cache_dir_arg ''./.cache/database'';
          pc1 = called (MakeDirs cache_dir) pc;
          embedding_dim = (case dimensions config of None \<Rightarrow> 1536 | Some d \<Rightarrow> d);
          (store, pc2) =
            (if db_name = ''pinecone''
             then setup_pinecone index_name embedding_dim ''cosine'' True pc1
             else (case setup_chroma index_name (Some cache_dir) pc1 of
                     (db, pc') \<Rightarrow> (Inr db, pc')))
      in case store of
           Inl e \<Rightarrow> (Inl e, pc2)
         | Inr db \<Rightarrow>
             (let namespace = db_name @ ''/'' @ index_name;
                  db_url = ''sqlite:///'' @ cache_dir @ ''/record_manager_cache.sql''
              in (Inr \<lparr>cache_dir = cache_dir, the_vectorstore = db, namespace = namespace\<rparr>,
                  called (CreateSchema namespace db_url) pc2)))"

subsection \<open>The index reconciler\<close>

text \<open>
  Modelled from the spec: the reconciliation itself.  \<^verbatim>\<open>VectorDB.index\<close> hands the
  chunks to \<^verbatim>\<open>langchain.indexes.index\<close> with a \<^verbatim>\<open>SQLRecordManager\<close> and the vector
  store; these belong to libraries that are not part of the sources.  What follows is
  sections 3, 4.2, 4.3, 4.4 and 4.5 of the specification, for a run in which the
  ledger, the embedding capability and the vector store all answer.

  The fingerprint and the embedding are capabilities.  The fingerprint is a function
  of the chunk; the id of a chunk is the pair of its source and its digest.
\<close>

type_synonym digest = nat

type_synonym chunk_id = "string \<times> digest"

record capabilities =
  fingerprint :: "document \<Rightarrow> digest"
  embed :: "string \<Rightarrow> int list"

definition chunk_id :: "capabilities \<Rightarrow> document \<Rightarrow> chunk_id" where
  "chunk_id caps c = (source c, fingerprint caps c)"

record ledger_entry =
  content_hash :: digest
  group_id :: string
  last_seen :: nat

record index_state =
  ledger :: "(chunk_id, ledger_entry) fmap"
  vectors :: "(chunk_id, int list \<times> document) fmap"

datatype cleanup_mode = Full | Incremental | No_cleanup

record index_result =
  num_added :: nat
  num_skipped :: nat
  num_deleted :: nat

text \<open>The ledger: \<^verbatim>\<open>update\<close>, \<^verbatim>\<open>list_keys\<close> and \<^verbatim>\<open>delete\<close> of section 4.3.\<close>

definition ledger_upsert ::
  "(chunk_id \<times> digest \<times> string) list \<Rightarrow> nat \<Rightarrow> (chunk_id, ledger_entry) fmap
     \<Rightarrow> (chunk_id, ledger_entry) fmap" where
  "ledger_upsert entries time l =
     fold (\<lambda>(k, h, g). fmupd k \<lparr>content_hash = h, group_id = g, last_seen = time\<rparr>) entries l"

definition list_keys :: "string \<Rightarrow> nat \<Rightarrow> (chunk_id, ledger_entry) fmap \<Rightarrow> chunk_id fset" where
  "list_keys g before_time l =
     ffilter (\<lambda>k. case fmlookup l k of None \<Rightarrow> False
                  | Some e \<Rightarrow> group_id e = g \<and> last_seen e < before_time) (fmdom l)"

definition ledger_delete ::
  "chunk_id fset \<Rightarrow> (chunk_id, ledger_entry) fmap \<Rightarrow> (chunk_id, ledger_entry) fmap" where
  "ledger_delete keys l = fmdrop_fset keys l"

text \<open>The vector store adapter: \<^verbatim>\<open>upsert\<close> and \<^verbatim>\<open>delete\<close> of section 4.4.\<close>

definition upsert ::
  "chunk_id \<Rightarrow> int list \<Rightarrow> document \<Rightarrow> (chunk_id, int list \<times> document) fmap
     \<Rightarrow> (chunk_id, int list \<times> document) fmap" where
  "upsert k v c store = fmupd k (v, c) store"

definition store_delete ::
  "chunk_id fset \<Rightarrow> (chunk_id, int list \<times> document) fmap
     \<Rightarrow> (chunk_id, int list \<times> document) fmap" where
  "store_delete keys store = fmdrop_fset keys store"

text \<open>
  Step 2 of the algorithm: a chunk is unchanged if the ledger has an entry under its id
  with the same content hash, and new or changed otherwise.
\<close>

definition unchanged :: "capabilities \<Rightarrow> (chunk_id, ledger_entry) fmap \<Rightarrow> document \<Rightarrow> bool" where
  "unchanged caps l c =
     (case fmlookup l (chunk_id caps c) of
        None \<Rightarrow> False
      | Some e \<Rightarrow> content_hash e = fingerprint caps c)"

text \<open>
  Step 4, the keys a cleanup mode deletes: under \<open>Full\<close> every key of the group whose
  \<open>last_seen\<close> is older than the run; under \<open>Incremental\<close> only keys touched by the run
  are considered; under \<open>No_cleanup\<close> none.
\<close>

definition cleanup_keys ::
  "cleanup_mode \<Rightarrow> string \<Rightarrow> nat \<Rightarrow> chunk_id fset \<Rightarrow> (chunk_id, ledger_entry) fmap
     \<Rightarrow> chunk_id fset" where
  "cleanup_keys mode g time touched l =
     (case mode of
        Full \<Rightarrow> list_keys g time l
      | Incremental \<Rightarrow> ffilter (\<lambda>k. k |\<in>| touched) (list_keys g time l)
      | No_cleanup \<Rightarrow> {||})"

text \<open>
  Steps 1 to 5.  New or changed chunks are embedded and upserted; the ledger is updated
  for all incoming chunks with the time of the run; the keys the cleanup mode chooses
  are deleted from both stores; the counts are returned.
\<close>

definition reconcile ::
  "capabilities \<Rightarrow> string \<Rightarrow> document list \<Rightarrow> cleanup_mode \<Rightarrow> nat \<Rightarrow> index_state
     \<Rightarrow> index_result \<times> index_state" where
  "reconcile caps g chunks mode time st =
     (let new_or_changed = filter (\<lambda>c. \<not> unchanged caps (ledger st) c) chunks;
          skipped = filter (unchanged caps (ledger st)) chunks;
          v1 = fold (\<lambda>c. upsert (chunk_id caps c) (embed caps (page_content c)) c)
                 new_or_changed (vectors st);
          l1 = ledger_upsert (map (\<lambda>c. (chunk_id caps c, fingerprint caps c, g)) chunks)
                 time (ledger st);
          touched = fset_of_list (map (chunk_id caps) chunks);
          stale = cleanup_keys mode g time touched l1;
          v2 = store_delete stale v1;
          l2 = ledger_delete stale l1
      in (\<lparr>num_added = length new_or_changed, num_skipped = length skipped,
           num_deleted = fcard stale\<rparr>,
          \<lparr>ledger = l2, vectors = v2\<rparr>))"

text \<open>The invariant of section 3: the ledger and the vector store hold the same ids.\<close>

definition consistent :: "index_state \<Rightarrow> bool" where
  "consistent st = (fmdom (ledger st) = fmdom (vectors st))"

definition empty_index :: index_state where
  "empty_index = \<lparr>ledger = fmempty, vectors = fmempty\<rparr>"

subsection \<open>Indexing an upload\<close>

text \<open>
  \<^verbatim>\<open>VectorDB.index\<close>.  The library call is given \<^verbatim>\<open>cleanup='full'\<close>; it is given neither
  a group nor a time, which the record manager supplies: they are the parameters \<open>g\<close>
  and \<open>time\<close>.  The counts the call returns are dropped, and the method returns
  \<^verbatim>\<open>None\<close>.  Every exception leaves as \<^verbatim>\<open>Exception("Failed to index document: ...")\<close>;
  the temporary directory is emptied and removed only after the call has returned.
\<close>

definition VectorDB_index ::
  "capabilities \<Rightarrow> (nat \<Rightarrow> (filename \<times> bytes) list \<Rightarrow> exn + document list)
     \<Rightarrow> (nat \<Rightarrow> nat \<Rightarrow> document list \<Rightarrow> exn + document list)
     \<Rightarrow> string \<Rightarrow> nat \<Rightarrow> uploaded \<Rightarrow> filesystem \<times> index_state
     \<Rightarrow> (exn + unit) \<times> filesystem \<times> index_state" where
  "VectorDB_index caps loader splitter g time uploaded_file world =
     (case world of (s, st) \<Rightarrow>
      (case extract_pdf uploaded_file s of
         Inl (e, s1) \<Rightarrow> (Inl (Failed_to_index_document e), s1, st)
       | Inr (directory, s1) \<Rightarrow>
           (case load_pdf_directory loader directory s1 of
              Inl e \<Rightarrow> (Inl (Failed_to_index_document e), s1, st)
            | Inr docs \<Rightarrow>
                (case split_pdf splitter docs of
                   Inl e \<Rightarrow> (Inl (Failed_to_index_document e), s1, st)
                 | Inr chunks \<Rightarrow>
                     (Inr (), rmtree directory s1,
                      snd (reconcile caps g chunks Full time st))))))"

section \<open>app.py\<close>

text \<open>
  The two chain classes are defined in \<^verbatim>\<open>src/openai_chain.py\<close>, which is not among the
  sources: their constructors are the parameters \<open>rag\<close> and \<open>plain\<close>, and the method
  \<^verbatim>\<open>update_chain\<close> is the parameter \<open>update_chain\<close>, which returns the chain as the call
  left it and the exception it raised, if any.

  \<^verbatim>\<open>load_chain\<close> returns \<^verbatim>\<open>None\<close> when a constructor raises.
\<close>

definition load_chain ::
  "(upload \<Rightarrow> string \<Rightarrow> exn + 'c) \<Rightarrow> (exn + 'c) \<Rightarrow> bool \<Rightarrow> upload option \<Rightarrow> string
     \<Rightarrow> 'c option" where
  "load_chain rag plain pdf_chat uploaded_file db_type =
     (case (case uploaded_file of
              Some file \<Rightarrow> if pdf_chat then rag file db_type else plain
            | None \<Rightarrow> plain) of
        Inl e \<Rightarrow> None
      | Inr chain \<Rightarrow> Some chain)"

text \<open>
  The part of \<^verbatim>\<open>main\<close> that loads the chain and updates the knowledge base.
  \<open>uploaded_pdf\<close> is the value of the file uploader, which is also
  \<^verbatim>\<open>st.session_state.uploaded_file\<close>: a list, since the uploader accepts several files.
  The result is the chain, if one could be loaded, and the flag \<^verbatim>\<open>knowledge_change\<close>.
\<close>

record session =
  pdf_chat :: bool
  knowledge_change :: bool

definition first_file :: "upload list \<Rightarrow> upload option" where
  "first_file uploaded_pdf = (case uploaded_pdf of [] \<Rightarrow> None | file # rest \<Rightarrow> Some file)"

definition main_update ::
  "(upload \<Rightarrow> string \<Rightarrow> exn + 'c) \<Rightarrow> (exn + 'c) \<Rightarrow> ('c \<Rightarrow> upload \<Rightarrow> exn option \<times> 'c)
     \<Rightarrow> string \<Rightarrow> session \<Rightarrow> upload list \<Rightarrow> 'c option \<times> session" where
  "main_update rag plain update_chain db_type sess uploaded_pdf =
     (case load_chain rag plain (pdf_chat sess) (first_file uploaded_pdf) db_type of
        None \<Rightarrow> (None, sess)
      | Some llm_chain \<Rightarrow>
          (case first_file uploaded_pdf of
             Some file \<Rightarrow>
               if knowledge_change sess
               then (Some (snd (update_chain llm_chain file)),
                     sess\<lparr>knowledge_change := False\<rparr>)
               else (Some llm_chain, sess)
           | None \<Rightarrow> (Some llm_chain, sess)))"

section \<open>Sample inputs\<close>

definition sample_page :: document where
  "sample_page = \<lparr>page_content = replicate 1000 CHR ''a'', source = ''a.pdf'', position = 0\<rparr>"

definition sample_caps :: capabilities where
  "sample_caps =
     \<lparr>fingerprint = (\<lambda>c. length (page_content c)), embed = (\<lambda>t. [int (length t)])\<rparr>"

text \<open>A loader that raises on a directory holding a file without the PDF header.\<close>

definition sample_loader :: "nat \<Rightarrow> (filename \<times> bytes) list \<Rightarrow> exn + document list" where
  "sample_loader directory files =
     (if \<forall>f \<in> set files. take 4 (snd f) = ''%PDF''
      then Inr (map (\<lambda>f. \<lparr>page_content = drop 4 (snd f), source = snd (fst f),
                             position = 0\<rparr>) files)
      else Inl LoaderError)"

text \<open>
  A disk without temporary directories, on which a file name has at most 255 characters,
  37 of which are the uuid and the underscore that \<^verbatim>\<open>extract_pdf\<close> puts in front.
\<close>

definition empty_disk :: filesystem where
  "empty_disk = \<lparr>dirs = [], uuid_supply = 0, rejects = (\<lambda>nm. 218 < length nm)\<rparr>"

definition batch_with_long_name :: uploaded where
  "batch_with_long_name =
     Many [UploadedFile (replicate 219 CHR ''a'') ''%PDFhi'', UploadedFile ''b.pdf'' ''%PDFhello'']"

definition batch_of_two :: uploaded where
  "batch_of_two = Many [UploadedFile ''a.pdf'' ''%PDFhi'', RawBytes ''%PDFhello'']"

definition batch_with_unreadable :: uploaded where
  "batch_with_unreadable = Many [NotBytes, UploadedFile ''b.pdf'' ''%PDFhello'']"

definition batch_with_malformed :: uploaded where
  "batch_with_malformed =
     Many [UploadedFile ''a.pdf'' ''garbage'', UploadedFile ''b.pdf'' ''%PDFhello'']"

definition chunk_a :: document where
  "chunk_a = \<lparr>page_content = ''hello'', source = ''a.pdf'', position = 0\<rparr>"

definition chunk_b :: document where
  "chunk_b = \<lparr>page_content = ''hello'', source = ''b.pdf'', position = 0\<rparr>"

text \<open>
  A chain that is the list of the files it has indexed: its constructor indexes the file
  it is given, and so does \<^verbatim>\<open>update_chain\<close>.
\<close>

definition indexing_rag :: "upload \<Rightarrow> string \<Rightarrow> exn + upload list" where
  "indexing_rag file db_type = Inr [file]"

definition indexing_update :: "upload list \<Rightarrow> upload \<Rightarrow> exn option \<times> upload list" where
  "indexing_update chain file = (None, chain @ [file])"

definition file_a :: upload where
  "file_a = UploadedFile ''a.pdf'' ''%PDFhi''"

definition file_b :: upload where
  "file_b = UploadedFile ''b.pdf'' ''%PDFhello''"

definition upload_session :: session where
  "upload_session = \<lparr>pdf_chat = True, knowledge_change = True\<rparr>"

definition cloud_768 :: services where
  "cloud_768 = \<lparr>indexes = [(''docs'', 768)], failing = (\<lambda>c. False), calls = []\<rparr>"

definition cloud_768_describe_down :: services where
  "cloud_768_describe_down =
     \<lparr>indexes = [(''docs'', 768)], failing = (\<lambda>c. c = DescribeIndex ''docs''), calls = []\<rparr>"

definition sample_config :: config where
  "sample_config = \<lparr>model_name = ''text-embedding-3-small'', dimensions = Some 1536\<rparr>"

section \<open>The chunker on the empty list\<close>

text \<open>
  C4.  For the empty list of input documents \<^verbatim>\<open>split_pdf\<close> returns the empty sequence of
  chunks and raises nothing, whatever the splitter is.
\<close>

theorem split_pdf_empty: "split_pdf splitter [] = Inr []"
  by (simp add: split_pdf_def)

section \<open>The chunker on a document of 1000 characters\<close>

lemma windows_512_64_1000: "windows 512 64 1000 0 = [(0, 512), (448, 960), (896, 1000)]"
  by (simp add: windows.simps)

lemma split_text_1000:
  assumes "length (page_content d) = 1000"
  shows "split_text 512 64 d =
     [\<lparr>page_content = take 512 (page_content d), source = source d, position = 0\<rparr>,
      \<lparr>page_content = take 512 (drop 448 (page_content d)), source = source d,
         position = 448\<rparr>,
      \<lparr>page_content = drop 896 (page_content d), source = source d, position = 896\<rparr>]"
  using assms by (simp add: split_text_def windows_512_64_1000)

text \<open>
  C5.  For every document of 1000 characters, the chunker with window 512 and overlap 64
  yields exactly three chunks, in document order, whose character spans are
  \<open>[0,512)\<close>, \<open>[448,960)\<close> and \<open>[896,1000)\<close>; each chunk holds the text of its span.
\<close>

theorem split_pdf_1000_chars:
  assumes "length (page_content d) = 1000"
  shows "\<exists>c1 c2 c3. split_pdf split_documents [d] = Inr [c1, c2, c3]
           \<and> span c1 = (0, 512) \<and> span c2 = (448, 960) \<and> span c3 = (896, 1000)
           \<and> page_content c1 = take 512 (page_content d)
           \<and> page_content c2 = take 512 (drop 448 (page_content d))
           \<and> page_content c3 = drop 896 (page_content d)"
  using assms by (simp add: split_pdf_def split_documents_def split_text_1000 span_def)

theorem split_pdf_1000_chars_witness:
  "length (page_content sample_page) = 1000
   \<and> (\<exists>c1 c2 c3. split_pdf split_documents [sample_page] = Inr [c1, c2, c3]
           \<and> span c1 = (0, 512) \<and> span c2 = (448, 960) \<and> span c3 = (896, 1000)
           \<and> page_content c1 = take 512 (page_content sample_page)
           \<and> page_content c2 = take 512 (drop 448 (page_content sample_page))
           \<and> page_content c3 = drop 896 (page_content sample_page))"
proof -
  have h: "length (page_content sample_page) = 1000"
    by (simp add: sample_page_def)
  show ?thesis
    by (rule conjI [OF h split_pdf_1000_chars [OF h]])
qed

section \<open>Extraction is all or nothing\<close>

lemma fold_max_upper: "x \<in> set xs \<Longrightarrow> x \<le> fold max xs (a::nat)"
proof (induction xs arbitrary: a)
  case Nil then show ?case by simp
next
  case (Cons y ys)
  have mono: "\<And>b. b \<le> fold max ys (b::nat)"
  proof -
    fix b :: nat show "b \<le> fold max ys b"
      by (induction ys arbitrary: b) (auto intro: order_trans [OF max.cobounded2])
  qed
  show ?case
  proof (cases "x = y")
    case True
    have "y \<le> max y a" by simp
    also have "\<dots> \<le> fold max ys (max y a)" by (rule mono)
    finally show ?thesis using True by simp
  next
    case False
    with Cons.prems have "x \<in> set ys" by simp
    then show ?thesis using Cons.IH by simp
  qed
qed

lemma mkdtemp_fresh: "mkdtemp s = (d, s1) \<Longrightarrow> d \<notin> fst ` set (dirs s)"
proof
  assume m: "mkdtemp s = (d, s1)" and "d \<in> fst ` set (dirs s)"
  then have "d \<in> set (map fst (dirs s))" by simp
  then have "d \<le> fold max (map fst (dirs s)) 0" by (rule fold_max_upper)
  moreover from m have "d = Suc (fold max (map fst (dirs s)) 0)"
    by (simp add: mkdtemp_def Let_def)
  ultimately show False by simp
qed

lemma mkdtemp_dirs:
  "mkdtemp s = (d, s1) \<Longrightarrow>
   dirs s1 = (d, []) # dirs s \<and> uuid_supply s1 = uuid_supply s \<and> rejects s1 = rejects s"
  by (auto simp: mkdtemp_def Let_def)

lemma update_fresh: "k \<notin> fst ` set al \<Longrightarrow> AList.update k v al = al @ [(k, v)]"
  by (induction al) auto

lemma map_other_dirs:
  "d \<notin> fst ` set rest \<Longrightarrow>
   map (\<lambda>(d', files). if d' = d then (d', h files) else (d', files)) rest = rest"
  by (induction rest) auto

lemma write_file_head:
  assumes "dirs s = (d, fl) # rest" and "d \<notin> fst ` set rest"
  shows "dirs (write_file d f c s) = (d, AList.update f c fl) # rest"
    and "uuid_supply (write_file d f c s) = uuid_supply s"
    and "rejects (write_file d f c s) = rejects s"
  using assms by (simp_all add: write_file_def map_other_dirs)

lemma write_uploads_ok:
  assumes "dirs s = (d, fl) # rest" and "d \<notin> fst ` set rest"
    and "\<forall>k \<in> fst ` set fl. fst k < uuid_supply s"
    and "write_uploads d files s = Inr s2"
  shows "dirs s2 = (d, fl @ written (uuid_supply s) files) # rest
    \<and> NotBytes \<notin> set files \<and> (\<forall>f \<in> set files. \<not> rejects s (name_of f))"
  using assms
proof (induction files arbitrary: s fl)
  case Nil
  then show ?case by simp
next
  case (Cons up files)
  let ?u = "uuid_supply s"
  let ?s1 = "s\<lparr>uuid_supply := Suc ?u\<rparr>"
  let ?f = "(?u, name_of up)"
  let ?s' = "write_file d ?f (content_of up) ?s1"
  from Cons.prems(4) have ok: "\<not> rejects s (name_of up)" "up \<noteq> NotBytes"
    and r: "write_uploads d files ?s' = Inr s2"
    by (simp_all add: Let_def split: if_splits)
  have fresh: "?f \<notin> fst ` set fl"
    using Cons.prems(3) by fastforce
  have d: "dirs ?s' = (d, fl @ [(?f, content_of up)]) # rest"
    and u: "uuid_supply ?s' = Suc ?u" and rj: "rejects ?s' = rejects s"
    using write_file_head [of ?s1 d fl rest ?f "content_of up"] Cons.prems(1,2)
    by (simp_all add: update_fresh [OF fresh])
  have b: "\<forall>k \<in> fst ` set (fl @ [(?f, content_of up)]). fst k < uuid_supply ?s'"
    using Cons.prems(3) u by (auto intro: less_SucI)
  from Cons.IH [OF d Cons.prems(2) b r] show ?case
    using ok u rj by simp
qed

lemma write_uploads_raise:
  assumes "dirs s = (d, fl) # rest" and "d \<notin> fst ` set rest"
    and "write_uploads d files s = Inl (e, s2)"
  shows "(\<exists>fl'. dirs s2 = (d, fl') # rest)
    \<and> (NotBytes \<in> set files \<or> (\<exists>f \<in> set files. rejects s (name_of f)))"
  using assms
proof (induction files arbitrary: s fl)
  case Nil
  then show ?case by simp
next
  case (Cons up files)
  let ?u = "uuid_supply s"
  let ?s1 = "s\<lparr>uuid_supply := Suc ?u\<rparr>"
  let ?f = "(?u, name_of up)"
  have h: "dirs (write_file d ?f c ?s1) = (d, AList.update ?f c fl) # rest"
    and rj: "rejects (write_file d ?f c ?s1) = rejects s" for c
    using write_file_head [of ?s1 d fl rest ?f c] Cons.prems(1,2) by simp_all
  show ?case
  proof (cases "rejects s (name_of up)")
    case True
    with Cons.prems(1,3) show ?thesis by (auto simp: Let_def)
  next
    case nr: False
    show ?thesis
    proof (cases "up = NotBytes")
      case True
      with nr Cons.prems(3) h [of "[]"] show ?thesis by (auto simp: Let_def)
    next
      case False
      with nr Cons.prems(3)
      have r: "write_uploads d files (write_file d ?f (content_of up) ?s1) = Inl (e, s2)"
        by (simp add: Let_def)
      from Cons.IH [OF h Cons.prems(2) r] show ?thesis by (auto simp: rj)
    qed
  qed
qed

lemma write_uploads_unwritable:
  assumes "NotBytes \<in> set files \<or> (\<exists>f \<in> set files. rejects s (name_of f))"
  shows "\<exists>e s2. write_uploads d files s = Inl (e, s2)"
  using assms
proof (induction files arbitrary: s)
  case Nil
  then show ?case by simp
next
  case (Cons up files)
  let ?s' = "write_file d (uuid_supply s, name_of up) (content_of up)
               (s\<lparr>uuid_supply := Suc (uuid_supply s)\<rparr>)"
  show ?case
  proof (cases "rejects s (name_of up) \<or> up = NotBytes")
    case True
    then show ?thesis by (auto simp: Let_def)
  next
    case False
    have "rejects ?s' = rejects s" by (simp add: write_file_def)
    with False Cons.prems
    have "NotBytes \<in> set files \<or> (\<exists>f \<in> set files. rejects ?s' (name_of f))" by auto
    from Cons.IH [OF this] False show ?thesis by (simp add: Let_def)
  qed
qed

lemma written_props:
  "length (written u files) = length files"
  "map snd (written u files) = map content_of files"
  "map (snd \<circ> fst) (written u files) = map name_of files"
  "map (fst \<circ> fst) (written u files) = [u ..< u + length files]"
  by (induction files arbitrary: u) (simp_all add: upt_rec)

lemma written_distinct: "distinct (map fst (written u files))"
proof -
  have "distinct (map fst (map fst (written u files)))"
    using written_props(4) [of u files] by simp
  then show ?thesis by (simp add: distinct_map inj_on_def comp_def)
qed

lemma rmtree_head:
  assumes "dirs s2 = (d, fl) # rest" and "d \<notin> fst ` set rest"
  shows "dirs (rmtree d s2) = rest"
proof -
  have "filter (\<lambda>(d', files). d' \<noteq> d) rest = rest"
    using assms(2) by (induction rest) auto
  then show ?thesis using assms(1) by (simp add: rmtree_def)
qed

lemma extract_pdf_Inl:
  assumes "extract_pdf uploaded_pdf s = Inl (e, s')"
  shows "(\<exists>x. e = Failed_to_extract_PDF x) \<and> dirs s' = dirs s
    \<and> (NotBytes \<in> set (as_list uploaded_pdf)
         \<or> (\<exists>f \<in> set (as_list uploaded_pdf). rejects s (name_of f)))"
proof -
  obtain d s1 where m: "mkdtemp s = (d, s1)" by (cases "mkdtemp s")
  note fresh = mkdtemp_fresh [OF m]
  from mkdtemp_dirs [OF m] have d1: "dirs s1 = (d, []) # dirs s" and r1: "rejects s1 = rejects s"
    by simp_all
  from assms m obtain x s2 where w: "write_uploads d (as_list uploaded_pdf) s1 = Inl (x, s2)"
    and e: "e = Failed_to_extract_PDF x" and s': "s' = rmtree d s2"
    by (auto simp: extract_pdf_def split: sum.splits)
  from write_uploads_raise [OF d1 fresh w]
  obtain fl' where "dirs s2 = (d, fl') # dirs s"
    and c: "NotBytes \<in> set (as_list uploaded_pdf)
         \<or> (\<exists>f \<in> set (as_list uploaded_pdf). rejects s1 (name_of f))" by blast
  then have "dirs (rmtree d s2) = dirs s" using rmtree_head fresh by blast
  then show ?thesis using e s' c r1 by simp
qed

lemma extract_pdf_raises:
  assumes "NotBytes \<in> set (as_list uploaded_pdf)
         \<or> (\<exists>f \<in> set (as_list uploaded_pdf). rejects s (name_of f))"
  shows "\<exists>e s'. extract_pdf uploaded_pdf s = Inl (e, s')"
proof -
  obtain d s1 where m: "mkdtemp s = (d, s1)" by (cases "mkdtemp s")
  from mkdtemp_dirs [OF m] have "rejects s1 = rejects s" by simp
  with assms have "NotBytes \<in> set (as_list uploaded_pdf)
         \<or> (\<exists>f \<in> set (as_list uploaded_pdf). rejects s1 (name_of f))" by simp
  from write_uploads_unwritable [OF this, of d] m show ?thesis
    by (auto simp: extract_pdf_def)
qed

text \<open>
  C9.  \<^verbatim>\<open>extract_pdf\<close> either returns a directory that did not exist before and that
  holds exactly one file per uploaded input, under pairwise different names, with the
  content and the name of the inputs in their order; or it raises
  \<^verbatim>\<open>Exception("Failed to extract PDF: ...")\<close> and the directories on disk are those
  from before the call: the temporary directory is gone, with the files written so far.
  It raises only when the write of some input fails.  A single input that is not a list
  is treated as the list of that input.
\<close>

theorem extract_pdf_atomic:
  "(case extract_pdf uploaded_pdf s of
      Inr (temp_dir, s') \<Rightarrow>
        temp_dir \<notin> fst ` set (dirs s)
        \<and> dirs s' = (temp_dir, files_of temp_dir s') # dirs s
        \<and> length (files_of temp_dir s') = length (as_list uploaded_pdf)
        \<and> distinct (map fst (files_of temp_dir s'))
        \<and> map snd (files_of temp_dir s') = map content_of (as_list uploaded_pdf)
        \<and> map (snd \<circ> fst) (files_of temp_dir s') = map name_of (as_list uploaded_pdf)
        \<and> NotBytes \<notin> set (as_list uploaded_pdf)
        \<and> (\<forall>f \<in> set (as_list uploaded_pdf). \<not> rejects s (name_of f))
    | Inl (e, s') \<Rightarrow>
        (\<exists>x. e = Failed_to_extract_PDF x)
        \<and> dirs s' = dirs s
        \<and> (NotBytes \<in> set (as_list uploaded_pdf)
             \<or> (\<exists>f \<in> set (as_list uploaded_pdf). rejects s (name_of f))))
   \<and> extract_pdf (Single up) s = extract_pdf (Many [up]) s"
proof -
  obtain d s1 where m: "mkdtemp s = (d, s1)" by (cases "mkdtemp s")
  note fresh = mkdtemp_fresh [OF m]
  from mkdtemp_dirs [OF m] have d1: "dirs s1 = (d, []) # dirs s"
    and u1: "uuid_supply s1 = uuid_supply s" and r1: "rejects s1 = rejects s"
    by simp_all
  have single: "extract_pdf (Single up) s = extract_pdf (Many [up]) s"
    by (simp add: extract_pdf_def as_list_def)
  show ?thesis
  proof (cases "extract_pdf uploaded_pdf s")
    case (Inl p)
    obtain e s' where p: "p = (e, s')" by (cases p)
    from extract_pdf_Inl [OF Inl [unfolded p]] show ?thesis
      using Inl p single by simp
  next
    case (Inr p)
    with m obtain s2 where w: "write_uploads d (as_list uploaded_pdf) s1 = Inr s2"
      and p: "p = (d, s2)"
      by (auto simp: extract_pdf_def split: sum.splits)
    have "\<forall>k \<in> fst ` set []. fst k < uuid_supply s1" by simp
    from write_uploads_ok [OF d1 fresh this w]
    have d2: "dirs s2 = (d, written (uuid_supply s1) (as_list uploaded_pdf)) # dirs s"
      and nb: "NotBytes \<notin> set (as_list uploaded_pdf)"
      and nr: "\<forall>f \<in> set (as_list uploaded_pdf). \<not> rejects s (name_of f)"
      using r1 by simp_all
    then have f: "files_of d s2 = written (uuid_supply s1) (as_list uploaded_pdf)"
      by (simp add: files_of_def)
    show ?thesis using Inr p fresh d2 f nb nr single written_props written_distinct
      by simp
  qed
qed

theorem extract_pdf_atomic_witness:
  "extract_pdf batch_of_two empty_disk
     = Inr (1, empty_disk\<lparr>dirs := [(1, [((0, ''a.pdf''), ''%PDFhi''),
                                          ((1, ''uploaded.pdf''), ''%PDFhello'')])],
                          uuid_supply := 2\<rparr>)
   \<and> extract_pdf batch_with_unreadable empty_disk
     = Inl (Failed_to_extract_PDF TypeError, empty_disk\<lparr>uuid_supply := 1\<rparr>)
   \<and> extract_pdf batch_with_long_name empty_disk
     = Inl (Failed_to_extract_PDF OSError, empty_disk\<lparr>uuid_supply := 1\<rparr>)
   \<and> extract_pdf (Single NotBytes) empty_disk = extract_pdf (Many [NotBytes]) empty_disk"
  using extract_pdf_atomic [where uploaded_pdf = batch_of_two and s = empty_disk
      and up = NotBytes]
    extract_pdf_atomic [where uploaded_pdf = batch_with_unreadable and s = empty_disk
      and up = NotBytes]
  by (simp add: extract_pdf_def mkdtemp_def as_list_def batch_of_two_def
      batch_with_unreadable_def batch_with_long_name_def empty_disk_def write_file_def
      rmtree_def Let_def)

section \<open>An unreadable document aborts the run\<close>

lemma index_loader_raises:
  assumes "extract_pdf uploaded_file s = Inr (directory, s1)"
    and "load_pdf_directory loader directory s1 = Inl e"
  shows "VectorDB_index caps loader splitter g time uploaded_file (s, st)
          = (Inl (Failed_to_index_document e), s1, st)"
  using assms by (simp add: VectorDB_index_def)

lemma extract_malformed:
  "extract_pdf batch_with_malformed empty_disk
     = Inr (1, empty_disk\<lparr>dirs := [(1, [((0, ''a.pdf''), ''garbage''),
                                          ((1, ''b.pdf''), ''%PDFhello'')])],
                          uuid_supply := 2\<rparr>)"
  by (simp add: extract_pdf_def mkdtemp_def as_list_def batch_with_malformed_def
      empty_disk_def write_file_def Let_def)

lemma load_malformed:
  "load_pdf_directory sample_loader 1
     (empty_disk\<lparr>dirs := [(1, [((0, ''a.pdf''), ''garbage''), ((1, ''b.pdf''), ''%PDFhello'')])],
                 uuid_supply := 2\<rparr>) = Inl LoaderError"
  by (simp add: load_pdf_directory_def sample_loader_def files_of_def)

text \<open>
  C7, as stated, fails: a batch of a document that cannot be extracted and one that can
  is not indexed in part.  Whether the first file is not bytes, has a name the disk
  rejects, or is written and then refused by the loader, the run raises and the index
  is as it was.
\<close>

theorem index_unreadable_counterexample:
  "VectorDB_index sample_caps sample_loader split_documents ''kb'' 1
       batch_with_unreadable (empty_disk, empty_index)
     = (Inl (Failed_to_index_document (Failed_to_extract_PDF TypeError)),
        empty_disk\<lparr>uuid_supply := 1\<rparr>, empty_index)
   \<and> VectorDB_index sample_caps sample_loader split_documents ''kb'' 1
       batch_with_long_name (empty_disk, empty_index)
     = (Inl (Failed_to_index_document (Failed_to_extract_PDF OSError)),
        empty_disk\<lparr>uuid_supply := 1\<rparr>, empty_index)
   \<and> VectorDB_index sample_caps sample_loader split_documents ''kb'' 1
       batch_with_malformed (empty_disk, empty_index)
     = (Inl (Failed_to_index_document LoaderError),
        empty_disk\<lparr>dirs := [(1, [((0, ''a.pdf''), ''garbage''),
                                   ((1, ''b.pdf''), ''%PDFhello'')])],
                   uuid_supply := 2\<rparr>, empty_index)"
proof (intro conjI)
  show "VectorDB_index sample_caps sample_loader split_documents ''kb'' 1
       batch_with_unreadable (empty_disk, empty_index)
     = (Inl (Failed_to_index_document (Failed_to_extract_PDF TypeError)),
        empty_disk\<lparr>uuid_supply := 1\<rparr>, empty_index)"
    by (simp add: VectorDB_index_def extract_pdf_def mkdtemp_def as_list_def
        batch_with_unreadable_def empty_disk_def write_file_def rmtree_def Let_def)
  show "VectorDB_index sample_caps sample_loader split_documents ''kb'' 1
       batch_with_long_name (empty_disk, empty_index)
     = (Inl (Failed_to_index_document (Failed_to_extract_PDF OSError)),
        empty_disk\<lparr>uuid_supply := 1\<rparr>, empty_index)"
    by (simp add: VectorDB_index_def extract_pdf_def mkdtemp_def as_list_def
        batch_with_long_name_def empty_disk_def write_file_def rmtree_def Let_def)
  show "VectorDB_index sample_caps sample_loader split_documents ''kb'' 1
       batch_with_malformed (empty_disk, empty_index)
     = (Inl (Failed_to_index_document LoaderError),
        empty_disk\<lparr>dirs := [(1, [((0, ''a.pdf''), ''garbage''),
                                   ((1, ''b.pdf''), ''%PDFhello'')])],
                   uuid_supply := 2\<rparr>, empty_index)"
    by (rule index_loader_raises [OF extract_malformed load_malformed])
qed

text \<open>
  C7, amended.  When the write of any file of the batch fails, \<^verbatim>\<open>VectorDB.index\<close> raises
  \<^verbatim>\<open>Exception("Failed to index document: ...")\<close> around the extraction error, no
  temporary directory is left, and neither the ledger nor the vector store is touched:
  no document of the batch is indexed.  When the files are written and the loader raises
  on the directory, \<^verbatim>\<open>VectorDB.index\<close> raises
  \<^verbatim>\<open>Exception("Failed to index document: ...")\<close> around the error of the loader, and
  neither the ledger nor the vector store is touched.
\<close>

theorem index_aborts_on_extraction_error:
  "(NotBytes \<in> set (as_list uploaded_file)
      \<or> (\<exists>f \<in> set (as_list uploaded_file). rejects s (name_of f)) \<longrightarrow>
      (\<exists>e s'. VectorDB_index caps loader splitter g time uploaded_file (s, st)
              = (Inl (Failed_to_index_document (Failed_to_extract_PDF e)), s', st)
            \<and> dirs s' = dirs s))
   \<and> (\<forall>directory s1 e.
        extract_pdf uploaded_file s = Inr (directory, s1)
          \<and> load_pdf_directory loader directory s1 = Inl e \<longrightarrow>
        (\<exists>s'. VectorDB_index caps loader splitter g time uploaded_file (s, st)
                = (Inl (Failed_to_index_document e), s', st)))"
proof (intro conjI impI allI)
  assume nb: "NotBytes \<in> set (as_list uploaded_file)
      \<or> (\<exists>f \<in> set (as_list uploaded_file). rejects s (name_of f))"
  from extract_pdf_raises [OF nb]
  obtain e s' where x: "extract_pdf uploaded_file s = Inl (e, s')"
    by blast
  from extract_pdf_Inl [OF x] obtain y where "e = Failed_to_extract_PDF y" "dirs s' = dirs s"
    by blast
  with x show "\<exists>e s'. VectorDB_index caps loader splitter g time uploaded_file (s, st)
              = (Inl (Failed_to_index_document (Failed_to_extract_PDF e)), s', st)
            \<and> dirs s' = dirs s"
    by (simp add: VectorDB_index_def)
next
  fix directory s1 e
  assume "extract_pdf uploaded_file s = Inr (directory, s1)
          \<and> load_pdf_directory loader directory s1 = Inl e"
  then show "\<exists>s'. VectorDB_index caps loader splitter g time uploaded_file (s, st)
                = (Inl (Failed_to_index_document e), s', st)"
    by (simp add: VectorDB_index_def)
qed

theorem index_aborts_on_extraction_error_witness:
  "(\<exists>f \<in> set (as_list batch_with_long_name). rejects empty_disk (name_of f))
   \<and> (\<exists>e s'. VectorDB_index sample_caps sample_loader split_documents ''kb'' 1
              batch_with_long_name (empty_disk, empty_index)
              = (Inl (Failed_to_index_document (Failed_to_extract_PDF e)), s', empty_index)
            \<and> dirs s' = dirs empty_disk)
   \<and> (\<exists>directory s1.
         extract_pdf batch_with_malformed empty_disk = Inr (directory, s1)
         \<and> load_pdf_directory sample_loader directory s1 = Inl LoaderError)
   \<and> (\<exists>s'. VectorDB_index sample_caps sample_loader split_documents ''kb'' 1
              batch_with_malformed (empty_disk, empty_index)
              = (Inl (Failed_to_index_document LoaderError), s', empty_index))"
proof -
  have nb: "\<exists>f \<in> set (as_list batch_with_long_name). rejects empty_disk (name_of f)"
    by (simp add: batch_with_long_name_def as_list_def empty_disk_def)
  note t = index_aborts_on_extraction_error
    [where uploaded_file = batch_with_long_name and caps = sample_caps
       and loader = sample_loader and splitter = split_documents and g = "''kb''"
       and time = 1 and s = empty_disk and st = empty_index]
  note u = index_aborts_on_extraction_error
    [where uploaded_file = batch_with_malformed and caps = sample_caps
       and loader = sample_loader and splitter = split_documents and g = "''kb''"
       and time = 1 and s = empty_disk and st = empty_index]
  from t nb have a: "\<exists>e s'. VectorDB_index sample_caps sample_loader split_documents ''kb'' 1
              batch_with_long_name (empty_disk, empty_index)
              = (Inl (Failed_to_index_document (Failed_to_extract_PDF e)), s', empty_index)
            \<and> dirs s' = dirs empty_disk" by blast
  from u extract_malformed load_malformed
  have b: "\<exists>s'. VectorDB_index sample_caps sample_loader split_documents ''kb'' 1
              batch_with_malformed (empty_disk, empty_index)
              = (Inl (Failed_to_index_document LoaderError), s', empty_index)" by blast
  show ?thesis using nb a b extract_malformed load_malformed by blast
qed

section \<open>Only the first uploaded file reaches the chain\<close>

text \<open>
  C10.  The uploader accepts several files, but \<^verbatim>\<open>main\<close> passes only the first element
  of the list to \<^verbatim>\<open>load_chain\<close> and to \<^verbatim>\<open>update_chain\<close>.  For an upload of two or more
  files: the chain is loaded with the first file (by the constructor \<open>rag\<close> when PDF chat
  is on); when the knowledge base is to be updated, \<^verbatim>\<open>update_chain\<close> is called once, on
  the loaded chain and the first file, and the flag \<^verbatim>\<open>knowledge_change\<close> is reset; and
  the chain and the session after the update are those of an upload of the first file
  alone, whatever the chain does with the file it is given, so that no other file of the
  upload is indexed.
\<close>

theorem main_update_first_file_only:
  "main_update rag plain update_chain db_type sess (f # g # rest)
     = main_update rag plain update_chain db_type sess [f]
   \<and> main_update rag plain update_chain db_type sess (f # g # rest)
     = (case (if pdf_chat sess then rag f db_type else plain) of
          Inl e \<Rightarrow> (None, sess)
        | Inr llm_chain \<Rightarrow>
            if knowledge_change sess
            then (Some (snd (update_chain llm_chain f)), sess\<lparr>knowledge_change := False\<rparr>)
            else (Some llm_chain, sess))
   \<and> (pdf_chat sess \<and> knowledge_change sess \<and> rag f db_type = Inr c \<longrightarrow>
        main_update rag plain update_chain db_type sess (f # g # rest)
          = (Some (snd (update_chain c f)), sess\<lparr>knowledge_change := False\<rparr>))"
  by (simp add: main_update_def first_file_def load_chain_def split: sum.split)

theorem main_update_first_file_only_witness:
  "pdf_chat upload_session \<and> knowledge_change upload_session
   \<and> indexing_rag file_a ''chroma'' = Inr [file_a]
   \<and> main_update indexing_rag (Inr []) indexing_update ''chroma'' upload_session
        [file_a, file_b]
      = (Some [file_a, file_a], upload_session\<lparr>knowledge_change := False\<rparr>)"
proof -
  have h: "pdf_chat upload_session \<and> knowledge_change upload_session
      \<and> indexing_rag file_a ''chroma'' = Inr [file_a]"
    by (simp add: upload_session_def indexing_rag_def)
  from main_update_first_file_only [where rag = indexing_rag and plain = "Inr []"
      and update_chain = indexing_update and db_type = "''chroma''"
      and sess = upload_session and f = file_a and g = file_b and rest = "[]"
      and c = "[file_a]"] h
  have "main_update indexing_rag (Inr []) indexing_update ''chroma'' upload_session
          [file_a, file_b]
        = (Some (snd (indexing_update [file_a] file_a)),
           upload_session\<lparr>knowledge_change := False\<rparr>)"
    by blast
  then show ?thesis using h by (simp add: indexing_update_def)
qed

section \<open>The dimension check at initialization\<close>

text \<open>
  C6, as stated, fails.  With Pinecone, an index of dimension 768 and a model of
  dimension 1536, a \<^verbatim>\<open>describe_index\<close> that raises leaves the mismatch undetected: the
  index is opened as it is.  With Chroma, initialization makes no call that inspects,
  deletes or creates a collection.
\<close>

theorem dimension_check_counterexample:
  "setup_pinecone ''docs'' 1536 ''cosine'' True cloud_768_describe_down
     = (Inr (PineconeVectorStore ''docs''),
        cloud_768_describe_down\<lparr>calls := [ListIndexes, DescribeIndex ''docs'', OpenIndex ''docs'']\<rparr>)
   \<and> map_of (indexes (snd (VectorDB_init sample_config ''pinecone'' ''docs'' None
                             cloud_768_describe_down))) ''docs'' = Some 768
   \<and> VectorDB_init sample_config ''chroma'' ''docs'' None cloud_768
     = (Inr \<lparr>cache_dir = ''./.cache/database'',
             the_vectorstore = Chroma ''docs'' ''./.cache/database'',
             namespace = ''chroma/docs''\<rparr>,
        cloud_768\<lparr>calls := [MakeDirs ''./.cache/database'', MakeDirs ''./.cache/database'',
                            OpenChroma ''docs'' ''./.cache/database'',
                            CreateSchema ''chroma/docs''
                              ''sqlite:///./.cache/database/record_manager_cache.sql'']\<rparr>)"
  by (simp add: setup_pinecone_def VectorDB_init_def setup_chroma_def or_default_def
      cloud_768_describe_down_def cloud_768_def sample_config_def called_def Let_def)

lemma setup_pinecone_recreates:
  assumes "\<forall>c. \<not> failing pc c"
    and "map_of (indexes pc) index_name = Some d" and "d \<noteq> 0" and "d \<noteq> embedding_dim"
  shows "setup_pinecone index_name embedding_dim metric use_serverless pc
     = (Inr (PineconeVectorStore index_name),
        pc\<lparr>indexes := AList.update index_name embedding_dim
                          (AList.delete index_name (indexes pc)),
            calls := calls pc @ [ListIndexes, DescribeIndex index_name, DeleteIndex index_name,
                       CreateIndex index_name embedding_dim metric use_serverless,
                       OpenIndex index_name]\<rparr>)"
proof -
  have ex: "index_name \<in> fst ` set (indexes pc)"
    using assms(2) by (metis domI dom_map_of_conv_image_fst)
  show ?thesis
    using assms ex
    by (simp add: setup_pinecone_def called_def delete_index_def create_index_def Let_def)
qed

lemma setup_pinecone_describe_fails:
  assumes "\<forall>c. failing pc c \<longleftrightarrow> c = DescribeIndex index_name"
    and "index_name \<in> fst ` set (indexes pc)"
  shows "setup_pinecone index_name embedding_dim metric use_serverless pc
     = (Inr (PineconeVectorStore index_name),
        pc\<lparr>calls := calls pc @ [ListIndexes, DescribeIndex index_name, OpenIndex index_name]\<rparr>)"
  using assms
  by (simp add: setup_pinecone_def called_def delete_index_def create_index_def Let_def)

lemma setup_pinecone_same_dimension:
  assumes "\<forall>c. \<not> failing pc c"
    and "map_of (indexes pc) index_name = Some embedding_dim"
  shows "setup_pinecone index_name embedding_dim metric use_serverless pc
     = (Inr (PineconeVectorStore index_name),
        pc\<lparr>calls := calls pc @ [ListIndexes, DescribeIndex index_name, OpenIndex index_name]\<rparr>)"
proof -
  have ex: "index_name \<in> fst ` set (indexes pc)"
    using assms(2) by (metis domI dom_map_of_conv_image_fst)
  show ?thesis
    using assms ex
    by (simp add: setup_pinecone_def called_def delete_index_def create_index_def Let_def)
qed

text \<open>
  C6, amended.  For the Pinecone backend, when no call of the client fails and the
  existing index reports a dimension that is not zero and differs from the configured
  one, \<^verbatim>\<open>VectorDB.__init__\<close> deletes the index and creates it again with the configured
  dimension before it opens the store, each call being made once in the initialization.
  When \<^verbatim>\<open>describe_index\<close> raises, the index is opened as it is.  For any other backend
  the result of the initialization does not depend on the configured dimension, and
  nothing is inspected, deleted or created.
\<close>

theorem dimension_check_pinecone_only:
  "(db_name = ''pinecone'' \<and> (\<forall>c. \<not> failing pc c)
      \<and> map_of (indexes pc) index_name = Some d \<and> d \<noteq> 0 \<and> d \<noteq> dim \<longrightarrow>
      (\<exists>db. VectorDB_init (config\<lparr>dimensions := Some dim\<rparr>) db_name index_name cache pc
         = (Inr db,
            pc\<lparr>indexes := AList.update index_name dim (AList.delete index_name (indexes pc)),
                calls := calls pc @
                  [MakeDirs (or_default cache ''./.cache/database''),
                   ListIndexes, DescribeIndex index_name, DeleteIndex index_name,
                   CreateIndex index_name dim ''cosine'' True, OpenIndex index_name,
                   CreateSchema (namespace db)
                     (''sqlite:///'' @ cache_dir db @ ''/record_manager_cache.sql'')]\<rparr>)
        \<and> the_vectorstore db = PineconeVectorStore index_name))
   \<and> (db_name = ''pinecone'' \<and> (\<forall>c. failing pc c \<longleftrightarrow> c = DescribeIndex index_name)
      \<and> index_name \<in> fst ` set (indexes pc) \<longrightarrow>
      (\<exists>db. VectorDB_init (config\<lparr>dimensions := Some dim\<rparr>) db_name index_name cache pc
         = (Inr db,
            pc\<lparr>calls := calls pc @
                  [MakeDirs (or_default cache ''./.cache/database''),
                   ListIndexes, DescribeIndex index_name, OpenIndex index_name,
                   CreateSchema (namespace db)
                     (''sqlite:///'' @ cache_dir db @ ''/record_manager_cache.sql'')]\<rparr>)))
   \<and> (db_name \<noteq> ''pinecone'' \<longrightarrow>
        VectorDB_init (config\<lparr>dimensions := Some dim\<rparr>) db_name index_name cache pc
          = VectorDB_init (config\<lparr>dimensions := Some dim'\<rparr>) db_name index_name cache pc
        \<and> indexes (snd (VectorDB_init (config\<lparr>dimensions := Some dim\<rparr>) db_name index_name
                           cache pc)) = indexes pc
        \<and> calls (snd (VectorDB_init (config\<lparr>dimensions := Some dim\<rparr>) db_name index_name
                           cache pc))
            = calls pc @
                [MakeDirs (or_default cache ''./.cache/database''),
                 MakeDirs (or_default cache ''./.cache/database''),
                 OpenChroma index_name (or_default cache ''./.cache/database''),
                 CreateSchema (db_name @ ''/'' @ index_name)
                   (''sqlite:///'' @ or_default cache ''./.cache/database''
                      @ ''/record_manager_cache.sql'')])"
proof (intro conjI impI)
  assume a: "db_name = ''pinecone'' \<and> (\<forall>c. \<not> failing pc c)
      \<and> map_of (indexes pc) index_name = Some d \<and> d \<noteq> 0 \<and> d \<noteq> dim"
  let ?pc1 = "called (MakeDirs (or_default cache ''./.cache/database'')) pc"
  have "setup_pinecone index_name dim ''cosine'' True ?pc1
     = (Inr (PineconeVectorStore index_name),
        ?pc1\<lparr>indexes := AList.update index_name dim (AList.delete index_name (indexes ?pc1)),
            calls := calls ?pc1 @ [ListIndexes, DescribeIndex index_name, DeleteIndex index_name,
                       CreateIndex index_name dim ''cosine'' True,
                       OpenIndex index_name]\<rparr>)"
    using a by (intro setup_pinecone_recreates [where d = d]) (simp_all add: called_def)
  then show "\<exists>db. VectorDB_init (config\<lparr>dimensions := Some dim\<rparr>) db_name index_name cache pc
         = (Inr db,
            pc\<lparr>indexes := AList.update index_name dim (AList.delete index_name (indexes pc)),
                calls := calls pc @
                  [MakeDirs (or_default cache ''./.cache/database''),
                   ListIndexes, DescribeIndex index_name, DeleteIndex index_name,
                   CreateIndex index_name dim ''cosine'' True, OpenIndex index_name,
                   CreateSchema (namespace db)
                     (''sqlite:///'' @ cache_dir db @ ''/record_manager_cache.sql'')]\<rparr>)
        \<and> the_vectorstore db = PineconeVectorStore index_name"
    using a by (simp add: VectorDB_init_def Let_def called_def)
next
  assume a: "db_name = ''pinecone'' \<and> (\<forall>c. failing pc c \<longleftrightarrow> c = DescribeIndex index_name)
      \<and> index_name \<in> fst ` set (indexes pc)"
  let ?pc1 = "called (MakeDirs (or_default cache ''./.cache/database'')) pc"
  have "setup_pinecone index_name dim ''cosine'' True ?pc1
     = (Inr (PineconeVectorStore index_name),
        ?pc1\<lparr>calls := calls ?pc1 @ [ListIndexes, DescribeIndex index_name, OpenIndex index_name]\<rparr>)"
    using a by (intro setup_pinecone_describe_fails) (simp_all add: called_def)
  then show "\<exists>db. VectorDB_init (config\<lparr>dimensions := Some dim\<rparr>) db_name index_name cache pc
         = (Inr db,
            pc\<lparr>calls := calls pc @
                  [MakeDirs (or_default cache ''./.cache/database''),
                   ListIndexes, DescribeIndex index_name, OpenIndex index_name,
                   CreateSchema (namespace db)
                     (''sqlite:///'' @ cache_dir db @ ''/record_manager_cache.sql'')]\<rparr>)"
    using a by (simp add: VectorDB_init_def Let_def called_def)
next
  assume "db_name \<noteq> ''pinecone''"
  then show "VectorDB_init (config\<lparr>dimensions := Some dim\<rparr>) db_name index_name cache pc
          = VectorDB_init (config\<lparr>dimensions := Some dim'\<rparr>) db_name index_name cache pc"
    by (simp add: VectorDB_init_def Let_def)
next
  assume "db_name \<noteq> ''pinecone''"
  then show "indexes (snd (VectorDB_init (config\<lparr>dimensions := Some dim\<rparr>) db_name index_name
                           cache pc)) = indexes pc"
    by (simp add: VectorDB_init_def setup_chroma_def Let_def called_def)
next
  assume "db_name \<noteq> ''pinecone''"
  then show "calls (snd (VectorDB_init (config\<lparr>dimensions := Some dim\<rparr>) db_name index_name
                           cache pc))
            = calls pc @
                [MakeDirs (or_default cache ''./.cache/database''),
                 MakeDirs (or_default cache ''./.cache/database''),
                 OpenChroma index_name (or_default cache ''./.cache/database''),
                 CreateSchema (db_name @ ''/'' @ index_name)
                   (''sqlite:///'' @ or_default cache ''./.cache/database''
                      @ ''/record_manager_cache.sql'')]"
    by (simp add: VectorDB_init_def setup_chroma_def Let_def called_def or_default_def
        split: option.split)
qed

theorem dimension_check_pinecone_only_witness:
  "indexes (snd (VectorDB_init (sample_config\<lparr>dimensions := Some 1536\<rparr>) ''pinecone''
                   ''docs'' None cloud_768)) = [(''docs'', 1536)]
   \<and> calls (snd (VectorDB_init (sample_config\<lparr>dimensions := Some 1536\<rparr>) ''pinecone''
                   ''docs'' None cloud_768_describe_down))
       = [MakeDirs ''./.cache/database'', ListIndexes, DescribeIndex ''docs'',
          OpenIndex ''docs'',
          CreateSchema ''pinecone/docs''
            ''sqlite:///./.cache/database/record_manager_cache.sql'']
   \<and> VectorDB_init (sample_config\<lparr>dimensions := Some 1536\<rparr>) ''chroma'' ''docs'' None cloud_768
       = VectorDB_init (sample_config\<lparr>dimensions := Some 768\<rparr>) ''chroma'' ''docs'' None
           cloud_768"
proof -
  note t = dimension_check_pinecone_only [where index_name = "''docs''" and dim = 1536
      and config = sample_config and cache = None]
  have h1: "''pinecone'' = ''pinecone'' \<and> (\<forall>c. \<not> failing cloud_768 c)
      \<and> map_of (indexes cloud_768) ''docs'' = Some 768 \<and> (768::nat) \<noteq> 0 \<and> (768::nat) \<noteq> 1536"
    by (simp add: cloud_768_def)
  have h2: "''pinecone'' = ''pinecone''
      \<and> (\<forall>c. failing cloud_768_describe_down c \<longleftrightarrow> c = DescribeIndex ''docs'')
      \<and> ''docs'' \<in> fst ` set (indexes cloud_768_describe_down)"
    by (simp add: cloud_768_describe_down_def)
  have h3: "''chroma'' \<noteq> ''pinecone''"
    by simp
  from t [where db_name = "''pinecone''" and pc = cloud_768 and d = 768] h1
  obtain db where
    "VectorDB_init (sample_config\<lparr>dimensions := Some 1536\<rparr>) ''pinecone'' ''docs'' None cloud_768
       = (Inr db,
          cloud_768\<lparr>indexes := AList.update ''docs'' 1536
                                  (AList.delete ''docs'' (indexes cloud_768)),
              calls := calls cloud_768 @
                  [MakeDirs (or_default None ''./.cache/database''),
                   ListIndexes, DescribeIndex ''docs'', DeleteIndex ''docs'',
                   CreateIndex ''docs'' 1536 ''cosine'' True, OpenIndex ''docs'',
                   CreateSchema (namespace db)
                     (''sqlite:///'' @ cache_dir db @ ''/record_manager_cache.sql'')]\<rparr>)"
    by blast
  then have c1: "indexes (snd (VectorDB_init (sample_config\<lparr>dimensions := Some 1536\<rparr>)
                   ''pinecone'' ''docs'' None cloud_768)) = [(''docs'', 1536)]"
    by (simp add: cloud_768_def)
  have c2: "calls (snd (VectorDB_init (sample_config\<lparr>dimensions := Some 1536\<rparr>) ''pinecone''
                   ''docs'' None cloud_768_describe_down))
       = [MakeDirs ''./.cache/database'', ListIndexes, DescribeIndex ''docs'',
          OpenIndex ''docs'',
          CreateSchema ''pinecone/docs''
            ''sqlite:///./.cache/database/record_manager_cache.sql'']"
    by (simp add: VectorDB_init_def setup_pinecone_def cloud_768_describe_down_def
        or_default_def called_def Let_def)
  from t [where db_name = "''chroma''" and pc = cloud_768 and dim' = 768] h3
  have c3: "VectorDB_init (sample_config\<lparr>dimensions := Some 1536\<rparr>) ''chroma'' ''docs'' None
              cloud_768
       = VectorDB_init (sample_config\<lparr>dimensions := Some 768\<rparr>) ''chroma'' ''docs'' None
           cloud_768"
    by blast
  from t [where db_name = "''pinecone''" and pc = cloud_768_describe_down] h2
  have "\<exists>db. VectorDB_init (sample_config\<lparr>dimensions := Some 1536\<rparr>) ''pinecone'' ''docs''
              None cloud_768_describe_down
         = (Inr db,
            cloud_768_describe_down\<lparr>calls := calls cloud_768_describe_down @
                  [MakeDirs (or_default None ''./.cache/database''),
                   ListIndexes, DescribeIndex ''docs'', OpenIndex ''docs'',
                   CreateSchema (namespace db)
                     (''sqlite:///'' @ cache_dir db @ ''/record_manager_cache.sql'')]\<rparr>)"
    by blast
  with c1 c2 c3 show ?thesis by blast
qed

section \<open>The reconciler\<close>

subsection \<open>What a run does to the two stores\<close>

lemma lookup_ledger_upsert:
  "fmlookup (ledger_upsert (map (\<lambda>c. (chunk_id caps c, fingerprint caps c, g)) chunks) t l) k
     = (if k \<in> chunk_id caps ` set chunks
        then Some \<lparr>content_hash = snd k, group_id = g, last_seen = t\<rparr>
        else fmlookup l k)"
proof (induction chunks arbitrary: l)
  case Nil
  then show ?case by (simp add: ledger_upsert_def)
next
  case (Cons c cs)
  have "ledger_upsert (map (\<lambda>c. (chunk_id caps c, fingerprint caps c, g)) (c # cs)) t l
      = ledger_upsert (map (\<lambda>c. (chunk_id caps c, fingerprint caps c, g)) cs) t
          (fmupd (chunk_id caps c)
             \<lparr>content_hash = fingerprint caps c, group_id = g, last_seen = t\<rparr> l)"
    by (simp add: ledger_upsert_def)
  then show ?case
    using Cons.IH by (auto simp: chunk_id_def)
qed

lemma fmdom_ledger_upsert:
  "fmdom (ledger_upsert (map (\<lambda>c. (chunk_id caps c, fingerprint caps c, g)) chunks) t l)
     = fmdom l |\<union>| fset_of_list (map (chunk_id caps) chunks)"
proof (induction chunks arbitrary: l)
  case Nil
  then show ?case by (simp add: ledger_upsert_def)
next
  case (Cons c cs)
  have "ledger_upsert (map (\<lambda>c. (chunk_id caps c, fingerprint caps c, g)) (c # cs)) t l
      = ledger_upsert (map (\<lambda>c. (chunk_id caps c, fingerprint caps c, g)) cs) t
          (fmupd (chunk_id caps c)
             \<lparr>content_hash = fingerprint caps c, group_id = g, last_seen = t\<rparr> l)"
    by (simp add: ledger_upsert_def)
  then show ?case
    using Cons.IH by auto
qed

lemma fmdom_upserts:
  "fmdom (fold (\<lambda>c. upsert (chunk_id caps c) (embed caps (page_content c)) c) cs v)
     = fmdom v |\<union>| fset_of_list (map (chunk_id caps) cs)"
  by (induction cs arbitrary: v) (auto simp: upsert_def)

lemma stale_iff:
  "k |\<in>| list_keys g t
            (ledger_upsert (map (\<lambda>c. (chunk_id caps c, fingerprint caps c, g)) chunks) t l)
     \<longleftrightarrow> k \<notin> chunk_id caps ` set chunks
          \<and> (\<exists>e. fmlookup l k = Some e \<and> group_id e = g \<and> last_seen e < t)"
  by (auto simp: list_keys_def lookup_ledger_upsert fmlookup_dom_iff split: option.splits)

lemma cleanup_keys_untouched:
  "cleanup_keys mode g t (fset_of_list (map (chunk_id caps) chunks))
       (ledger_upsert (map (\<lambda>c. (chunk_id caps c, fingerprint caps c, g)) chunks) t l)
     |\<inter>| fset_of_list (map (chunk_id caps) chunks) = {||}"
  by (cases mode) (auto simp: cleanup_keys_def stale_iff fset_of_list_elem)

lemma reconcile_fmdom:
  assumes "reconcile caps g chunks mode t st = (res, st')"
  shows "\<exists>stale. stale |\<inter>| fset_of_list (map (chunk_id caps) chunks) = {||}
           \<and> num_deleted res = fcard stale
           \<and> fmdom (ledger st')
               = (fmdom (ledger st) |\<union>| fset_of_list (map (chunk_id caps) chunks)) |-| stale
           \<and> fmdom (vectors st')
               = (fmdom (vectors st)
                   |\<union>| fset_of_list (map (chunk_id caps)
                         (filter (\<lambda>c. \<not> unchanged caps (ledger st) c) chunks))) |-| stale"
proof -
  let ?l1 = "ledger_upsert (map (\<lambda>c. (chunk_id caps c, fingerprint caps c, g)) chunks) t (ledger st)"
  let ?stale = "cleanup_keys mode g t (fset_of_list (map (chunk_id caps) chunks)) ?l1"
  have d: "?stale |\<inter>| fset_of_list (map (chunk_id caps) chunks) = {||}"
    by (rule cleanup_keys_untouched)
  from assms have r: "num_deleted res = fcard ?stale"
    and l: "ledger st' = ledger_delete ?stale ?l1"
    and v: "vectors st' = store_delete ?stale
                    (fold (\<lambda>c. upsert (chunk_id caps c) (embed caps (page_content c)) c)
                       (filter (\<lambda>c. \<not> unchanged caps (ledger st) c) chunks) (vectors st))"
    by (auto simp: reconcile_def Let_def)
  show ?thesis
    apply (rule exI [of _ ?stale])
    using d r by (simp add: l v ledger_delete_def store_delete_def fmdom_ledger_upsert fmdom_upserts)
qed

lemma in_ids:
  "k |\<in>| fset_of_list (map (chunk_id caps) cs) \<longleftrightarrow> (\<exists>c \<in> set cs. k = chunk_id caps c)"
  by (auto simp: fset_of_list_elem)

lemma unchanged_in_ledger: "unchanged caps l c \<Longrightarrow> chunk_id caps c |\<in>| fmdom l"
  by (auto simp: unchanged_def fmlookup_dom_iff split: option.splits)

lemma reconcile_consistent:
  assumes "consistent st"
  shows "consistent (snd (reconcile caps g chunks mode t st))"
proof -
  obtain res st' where r: "reconcile caps g chunks mode t st = (res, st')"
    by (cases "reconcile caps g chunks mode t st")
  from reconcile_fmdom [OF r] obtain stale where
    l: "fmdom (ledger st')
               = (fmdom (ledger st) |\<union>| fset_of_list (map (chunk_id caps) chunks)) |-| stale"
    and v: "fmdom (vectors st')
               = (fmdom (vectors st)
                   |\<union>| fset_of_list (map (chunk_id caps)
                         (filter (\<lambda>c. \<not> unchanged caps (ledger st) c) chunks))) |-| stale"
    by blast
  have "fmdom (ledger st) |\<union>| fset_of_list (map (chunk_id caps) chunks)
      = fmdom (ledger st) |\<union>| fset_of_list (map (chunk_id caps)
                         (filter (\<lambda>c. \<not> unchanged caps (ledger st) c) chunks))"
  proof (rule fset_eqI)
    fix k
    show "k |\<in>| fmdom (ledger st) |\<union>| fset_of_list (map (chunk_id caps) chunks)
      \<longleftrightarrow> k |\<in>| fmdom (ledger st) |\<union>| fset_of_list (map (chunk_id caps)
                         (filter (\<lambda>c. \<not> unchanged caps (ledger st) c) chunks))"
      using unchanged_in_ledger [of caps "ledger st"]
      unfolding funion_iff in_ids by auto
  qed
  with l v assms show ?thesis by (simp add: r consistent_def)
qed

lemma reconcile_keeps_batch:
  assumes "consistent st" and "c \<in> set chunks"
  shows "chunk_id caps c |\<in>| fmdom (vectors (snd (reconcile caps g chunks mode t st)))"
proof -
  obtain res st' where r: "reconcile caps g chunks mode t st = (res, st')"
    by (cases "reconcile caps g chunks mode t st")
  from reconcile_fmdom [OF r] obtain stale where
    d: "stale |\<inter>| fset_of_list (map (chunk_id caps) chunks) = {||}" and
    l: "fmdom (ledger st')
               = (fmdom (ledger st) |\<union>| fset_of_list (map (chunk_id caps) chunks)) |-| stale"
    by blast
  have "chunk_id caps c |\<in>| fset_of_list (map (chunk_id caps) chunks)"
    using assms(2) by (simp add: fset_of_list_elem)
  with d l have "chunk_id caps c |\<in>| fmdom (ledger st')" by auto
  moreover have "consistent st'" using reconcile_consistent [OF assms(1), of caps g chunks mode t] r by simp
  ultimately show ?thesis by (simp add: r consistent_def)
qed

lemma reconcile_parts:
  "num_added (fst (reconcile caps g chunks mode t st))
     = length (filter (\<lambda>c. \<not> unchanged caps (ledger st) c) chunks)"
  "num_skipped (fst (reconcile caps g chunks mode t st))
     = length (filter (unchanged caps (ledger st)) chunks)"
  "num_deleted (fst (reconcile caps g chunks mode t st))
     = fcard (cleanup_keys mode g t (fset_of_list (map (chunk_id caps) chunks))
         (ledger_upsert (map (\<lambda>c. (chunk_id caps c, fingerprint caps c, g)) chunks) t (ledger st)))"
  "ledger (snd (reconcile caps g chunks mode t st))
     = ledger_delete
         (cleanup_keys mode g t (fset_of_list (map (chunk_id caps) chunks))
           (ledger_upsert (map (\<lambda>c. (chunk_id caps c, fingerprint caps c, g)) chunks) t (ledger st)))
         (ledger_upsert (map (\<lambda>c. (chunk_id caps c, fingerprint caps c, g)) chunks) t (ledger st))"
  "vectors (snd (reconcile caps g chunks mode t st))
     = store_delete
         (cleanup_keys mode g t (fset_of_list (map (chunk_id caps) chunks))
           (ledger_upsert (map (\<lambda>c. (chunk_id caps c, fingerprint caps c, g)) chunks) t (ledger st)))
         (fold (\<lambda>c. upsert (chunk_id caps c) (embed caps (page_content c)) c)
            (filter (\<lambda>c. \<not> unchanged caps (ledger st) c) chunks) (vectors st))"
  by (simp_all add: reconcile_def Let_def)

lemma reconcile_full_ledger:
  "fmlookup (ledger (snd (reconcile caps g chunks Full t st))) k
     = (if k \<in> chunk_id caps ` set chunks
        then Some \<lparr>content_hash = snd k, group_id = g, last_seen = t\<rparr>
        else (case fmlookup (ledger st) k of
                None \<Rightarrow> None
              | Some e \<Rightarrow> if group_id e = g \<and> last_seen e < t then None else Some e))"
  by (auto simp: reconcile_parts(4) ledger_delete_def cleanup_keys_def stale_iff
      lookup_ledger_upsert split: option.splits)

lemma fmdom_eq_ids:
  assumes "\<And>k. fmlookup m k = (if k \<in> chunk_id caps ` set cs then Some (f k) else None)"
  shows "fmdom m = fset_of_list (map (chunk_id caps) cs)"
proof (rule fset_eqI)
  fix k
  show "k |\<in>| fmdom m \<longleftrightarrow> k |\<in>| fset_of_list (map (chunk_id caps) cs)"
    unfolding fmlookup_dom_iff in_ids by (auto simp: assms)
qed

subsection \<open>Referential consistency\<close>

text \<open>
  C8.  The ledger and the vector store are consistent when an id has a ledger entry if
  and only if it has a vector.  The empty index is consistent, and consistency is
  preserved by every reconciliation run, in every cleanup mode, and by every call of
  \<^verbatim>\<open>VectorDB.index\<close>, whether it returns or raises.
\<close>

theorem ledger_store_consistent:
  "(consistent st \<longleftrightarrow>
      (\<forall>k. (\<exists>e. fmlookup (ledger st) k = Some e) \<longleftrightarrow> (\<exists>v. fmlookup (vectors st) k = Some v)))
   \<and> consistent empty_index
   \<and> (consistent st \<longrightarrow> consistent (snd (reconcile caps g chunks mode t st)))
   \<and> (consistent st \<longrightarrow>
        consistent (snd (snd (VectorDB_index caps loader splitter g t uploaded_file (s, st)))))"
proof (intro conjI impI)
  show "consistent st \<longleftrightarrow>
      (\<forall>k. (\<exists>e. fmlookup (ledger st) k = Some e) \<longleftrightarrow> (\<exists>v. fmlookup (vectors st) k = Some v))"
  proof
    assume "consistent st"
    then have "\<And>k. k |\<in>| fmdom (ledger st) \<longleftrightarrow> k |\<in>| fmdom (vectors st)"
      by (simp add: consistent_def)
    then show "\<forall>k. (\<exists>e. fmlookup (ledger st) k = Some e) \<longleftrightarrow> (\<exists>v. fmlookup (vectors st) k = Some v)"
      unfolding fmlookup_dom_iff by blast
  next
    assume "\<forall>k. (\<exists>e. fmlookup (ledger st) k = Some e) \<longleftrightarrow> (\<exists>v. fmlookup (vectors st) k = Some v)"
    then have "\<And>k. k |\<in>| fmdom (ledger st) \<longleftrightarrow> k |\<in>| fmdom (vectors st)"
      unfolding fmlookup_dom_iff by blast
    then show "consistent st"
      unfolding consistent_def by (rule fset_eqI)
  qed
next
  show "consistent empty_index"
    by (simp add: consistent_def empty_index_def)
next
  assume "consistent st"
  then show "consistent (snd (reconcile caps g chunks mode t st))"
    by (rule reconcile_consistent)
next
  assume c: "consistent st"
  have "snd (snd (VectorDB_index caps loader splitter g t uploaded_file (s, st))) = st
    \<or> (\<exists>chunks. snd (snd (VectorDB_index caps loader splitter g t uploaded_file (s, st)))
          = snd (reconcile caps g chunks Full t st))"
    by (auto simp: VectorDB_index_def split: sum.splits prod.splits)
  with c show "consistent (snd (snd (VectorDB_index caps loader splitter g t uploaded_file (s, st))))"
    using reconcile_consistent [OF c] by auto
qed

theorem ledger_store_consistent_witness:
  "consistent empty_index
   \<and> consistent (snd (reconcile sample_caps ''kb'' [chunk_a, chunk_b] Full 1 empty_index))
   \<and> consistent (snd (snd (VectorDB_index sample_caps sample_loader split_documents ''kb'' 1
                              batch_of_two (empty_disk, empty_index))))"
  using ledger_store_consistent [where st = empty_index and caps = sample_caps and g = "''kb''"
      and chunks = "[chunk_a, chunk_b]" and mode = Full and t = 1 and loader = sample_loader
      and splitter = split_documents and uploaded_file = batch_of_two and s = empty_disk]
  by blast

subsection \<open>The same text from two sources\<close>

text \<open>
  C3.  Two chunks with the same text at the same position and with different sources
  have different ids, whatever the fingerprint is, since the id holds the source; and a
  run on a batch that holds both leaves a vector under each of the two ids.
\<close>

theorem same_text_different_source:
  assumes "page_content c1 = page_content c2" and "position c1 = position c2"
    and "source c1 \<noteq> source c2"
    and "c1 \<in> set chunks" and "c2 \<in> set chunks" and "consistent st"
  shows "chunk_id caps c1 \<noteq> chunk_id caps c2
    \<and> chunk_id caps c1 |\<in>| fmdom (vectors (snd (reconcile caps g chunks mode t st)))
    \<and> chunk_id caps c2 |\<in>| fmdom (vectors (snd (reconcile caps g chunks mode t st)))"
  using assms reconcile_keeps_batch [of st _ chunks caps g mode t]
  by (simp add: chunk_id_def)

theorem same_text_different_source_witness:
  "page_content chunk_a = page_content chunk_b \<and> position chunk_a = position chunk_b
   \<and> source chunk_a \<noteq> source chunk_b \<and> consistent empty_index
   \<and> chunk_id sample_caps chunk_a \<noteq> chunk_id sample_caps chunk_b
   \<and> chunk_id sample_caps chunk_a
       |\<in>| fmdom (vectors (snd (reconcile sample_caps ''kb'' [chunk_a, chunk_b] Full 1 empty_index)))
   \<and> chunk_id sample_caps chunk_b
       |\<in>| fmdom (vectors (snd (reconcile sample_caps ''kb'' [chunk_a, chunk_b] Full 1 empty_index)))"
proof -
  have h: "page_content chunk_a = page_content chunk_b" "position chunk_a = position chunk_b"
    "source chunk_a \<noteq> source chunk_b" "chunk_a \<in> set [chunk_a, chunk_b]"
    "chunk_b \<in> set [chunk_a, chunk_b]" "consistent empty_index"
    by (simp_all add: chunk_a_def chunk_b_def consistent_def empty_index_def)
  from same_text_different_source [OF h, of sample_caps "''kb''" Full 1] h
  show ?thesis by blast
qed

subsection \<open>Full cleanup removes what a run no longer produces\<close>

text \<open>
  C2.  Let the stores be consistent and hold only entries of group \<open>g\<close> from before the
  first run.  After a run on \<open>C1\<close> at time \<open>t1\<close> and a later run on \<open>C2\<close> at time \<open>t2\<close>,
  both for group \<open>g\<close> with full cleanup, where no chunk of \<open>C2\<close> has the id of a chunk of
  \<open>C1\<close>, the vector store holds exactly the ids of \<open>C2\<close>, and so does the ledger, which
  has no entry under the id of any chunk of \<open>C1\<close>.
\<close>

theorem full_cleanup_replaces_group:
  assumes "consistent st0"
    and "\<forall>k e. fmlookup (ledger st0) k = Some e \<longrightarrow> group_id e = g \<and> last_seen e < t1"
    and "t1 < t2"
    and "chunk_id caps ` set C1 \<inter> chunk_id caps ` set C2 = {}"
  shows "fmdom (vectors (snd (reconcile caps g C2 Full t2 (snd (reconcile caps g C1 Full t1 st0)))))
           = fset_of_list (map (chunk_id caps) C2)
    \<and> fmdom (ledger (snd (reconcile caps g C2 Full t2 (snd (reconcile caps g C1 Full t1 st0)))))
           = fset_of_list (map (chunk_id caps) C2)
    \<and> (\<forall>c \<in> set C1.
          fmlookup (ledger (snd (reconcile caps g C2 Full t2
                                   (snd (reconcile caps g C1 Full t1 st0)))))
            (chunk_id caps c) = None)"
proof -
  let ?st1 = "snd (reconcile caps g C1 Full t1 st0)"
  let ?st2 = "snd (reconcile caps g C2 Full t2 ?st1)"
  have l1: "fmlookup (ledger ?st1) k
      = (if k \<in> chunk_id caps ` set C1
         then Some \<lparr>content_hash = snd k, group_id = g, last_seen = t1\<rparr> else None)" for k
  proof -
    have "group_id e = g \<and> last_seen e < t1" if "fmlookup (ledger st0) k = Some e" for e
      using assms(2) that by blast
    then show ?thesis
      by (simp add: reconcile_full_ledger split: option.splits)
  qed
  have l2: "fmlookup (ledger ?st2) k
      = (if k \<in> chunk_id caps ` set C2
         then Some \<lparr>content_hash = snd k, group_id = g, last_seen = t2\<rparr> else None)" for k
    using assms(3) by (simp add: reconcile_full_ledger [of caps g C2] l1)
  have d: "fmdom (ledger ?st2) = fset_of_list (map (chunk_id caps) C2)"
    using l2 by (rule fmdom_eq_ids)
  have "consistent ?st2"
    by (intro reconcile_consistent assms(1))
  then have v: "fmdom (vectors ?st2) = fset_of_list (map (chunk_id caps) C2)"
    using d by (simp add: consistent_def)
  have n: "\<forall>c \<in> set C1. fmlookup (ledger ?st2) (chunk_id caps c) = None"
    using assms(4) by (auto simp: l2)
  from v d n show ?thesis by blast
qed

theorem full_cleanup_replaces_group_witness:
  "consistent empty_index \<and> (1::nat) < 2
   \<and> chunk_id sample_caps ` set [chunk_a] \<inter> chunk_id sample_caps ` set [chunk_b] = {}
   \<and> fmdom (vectors (snd (reconcile sample_caps ''kb'' [chunk_b] Full 2
                        (snd (reconcile sample_caps ''kb'' [chunk_a] Full 1 empty_index)))))
       = fset_of_list (map (chunk_id sample_caps) [chunk_b])
   \<and> fmlookup (ledger (snd (reconcile sample_caps ''kb'' [chunk_b] Full 2
                        (snd (reconcile sample_caps ''kb'' [chunk_a] Full 1 empty_index)))))
        (chunk_id sample_caps chunk_a) = None"
proof -
  have h: "consistent empty_index"
    "\<forall>k e. fmlookup (ledger empty_index) k = Some e \<longrightarrow> group_id e = ''kb'' \<and> last_seen e < 1"
    "(1::nat) < 2"
    "chunk_id sample_caps ` set [chunk_a] \<inter> chunk_id sample_caps ` set [chunk_b] = {}"
    by (simp_all add: consistent_def empty_index_def chunk_id_def chunk_a_def chunk_b_def)
  from full_cleanup_replaces_group [OF h] h show ?thesis by simp
qed

subsection \<open>Running twice on the same chunks\<close>

text \<open>
  C1, as stated, fails in its last part: the second run leaves the vector store as it
  is but not the ledger, whose entries for the chunks are set to the time of the second
  run.
\<close>

theorem repeated_run_counterexample:
  "ledger (snd (reconcile sample_caps ''kb'' [chunk_a] Full 2
                 (snd (reconcile sample_caps ''kb'' [chunk_a] Full 1 empty_index))))
     \<noteq> ledger (snd (reconcile sample_caps ''kb'' [chunk_a] Full 1 empty_index))"
proof
  let ?st1 = "snd (reconcile sample_caps ''kb'' [chunk_a] Full 1 empty_index)"
  assume "ledger (snd (reconcile sample_caps ''kb'' [chunk_a] Full 2 ?st1)) = ledger ?st1"
  then have "fmlookup (ledger (snd (reconcile sample_caps ''kb'' [chunk_a] Full 2 ?st1)))
                (chunk_id sample_caps chunk_a)
           = fmlookup (ledger ?st1) (chunk_id sample_caps chunk_a)"
    by simp
  then show False
    by (simp add: reconcile_full_ledger)
qed

text \<open>
  C1, amended.  Let the entries of group \<open>g\<close> in the ledger be older than the first run.
  A run on \<open>C\<close> for group \<open>g\<close> with full cleanup that follows a run on the same \<open>C\<close> adds
  nothing, deletes nothing and skips every chunk of \<open>C\<close>; it leaves the vector store
  unchanged and the ledger with the same keys and entries, except that \<open>last_seen\<close> of
  the entries of \<open>C\<close> is the time of the second run.
\<close>

theorem repeated_run_idempotent:
  assumes "\<forall>k e. fmlookup (ledger st0) k = Some e \<and> group_id e = g \<longrightarrow> last_seen e < t1"
  shows "num_added (fst (reconcile caps g C Full t2 (snd (reconcile caps g C Full t1 st0)))) = 0
    \<and> num_deleted (fst (reconcile caps g C Full t2 (snd (reconcile caps g C Full t1 st0)))) = 0
    \<and> num_skipped (fst (reconcile caps g C Full t2 (snd (reconcile caps g C Full t1 st0))))
        = length C
    \<and> vectors (snd (reconcile caps g C Full t2 (snd (reconcile caps g C Full t1 st0))))
        = vectors (snd (reconcile caps g C Full t1 st0))
    \<and> fmdom (ledger (snd (reconcile caps g C Full t2 (snd (reconcile caps g C Full t1 st0)))))
        = fmdom (ledger (snd (reconcile caps g C Full t1 st0)))
    \<and> (\<forall>k. fmlookup (ledger (snd (reconcile caps g C Full t2
                                     (snd (reconcile caps g C Full t1 st0))))) k
             = map_option (\<lambda>e. if k \<in> chunk_id caps ` set C then e\<lparr>last_seen := t2\<rparr> else e)
                 (fmlookup (ledger (snd (reconcile caps g C Full t1 st0))) k))"
proof -
  let ?st1 = "snd (reconcile caps g C Full t1 st0)"
  let ?r2 = "reconcile caps g C Full t2 ?st1"
  let ?l1' = "ledger_upsert (map (\<lambda>c. (chunk_id caps c, fingerprint caps c, g)) C) t2 (ledger ?st1)"
  have l1: "fmlookup (ledger ?st1) k
      = (if k \<in> chunk_id caps ` set C
         then Some \<lparr>content_hash = snd k, group_id = g, last_seen = t1\<rparr>
         else (case fmlookup (ledger st0) k of
                None \<Rightarrow> None
              | Some e \<Rightarrow> if group_id e = g then None else Some e))" for k
  proof -
    have "last_seen e < t1" if "fmlookup (ledger st0) k = Some e" and "group_id e = g" for e
      using assms that by blast
    then show ?thesis
      by (simp add: reconcile_full_ledger split: option.splits)
  qed
  have u: "unchanged caps (ledger ?st1) c" if "c \<in> set C" for c
    using that by (simp add: unchanged_def l1) (simp add: chunk_id_def)
  then have f1: "filter (\<lambda>c. \<not> unchanged caps (ledger ?st1) c) C = []"
    and f2: "filter (unchanged caps (ledger ?st1)) C = C"
    by (simp_all add: filter_empty_conv filter_id_conv)
  have st: "cleanup_keys Full g t2 (fset_of_list (map (chunk_id caps) C)) ?l1' = {||}"
  proof (rule fset_eqI)
    fix k
    show "k |\<in>| cleanup_keys Full g t2 (fset_of_list (map (chunk_id caps) C)) ?l1'
            \<longleftrightarrow> k |\<in>| {||}"
      by (auto simp: cleanup_keys_def stale_iff l1 split: option.splits if_splits)
  qed
  note p = reconcile_parts [of caps g C Full t2 ?st1]
  have a: "num_added (fst ?r2) = 0"
    unfolding p(1) f1 by simp
  have s: "num_skipped (fst ?r2) = length C"
    unfolding p(2) f2 by simp
  have d: "num_deleted (fst ?r2) = 0"
    unfolding p(3) st by simp
  have v: "vectors (snd ?r2) = vectors ?st1"
    unfolding p(5) st f1 by (simp add: store_delete_def)
  have l: "ledger (snd ?r2) = ?l1'"
    unfolding p(4) st by (simp add: ledger_delete_def)
  have lk: "fmlookup (ledger (snd ?r2)) k
             = map_option (\<lambda>e. if k \<in> chunk_id caps ` set C then e\<lparr>last_seen := t2\<rparr> else e)
                 (fmlookup (ledger ?st1) k)" for k
    by (simp add: l lookup_ledger_upsert l1 option.map_ident)
  have dm: "fmdom (ledger (snd ?r2)) = fmdom (ledger ?st1)"
  proof (rule fset_eqI)
    fix k show "k |\<in>| fmdom (ledger (snd ?r2)) \<longleftrightarrow> k |\<in>| fmdom (ledger ?st1)"
      unfolding fmlookup_dom_iff lk by auto
  qed
  from a d s v dm lk show ?thesis by blast
qed

theorem repeated_run_idempotent_witness:
  "num_added (fst (reconcile sample_caps ''kb'' [chunk_a, chunk_b] Full 2
                    (snd (reconcile sample_caps ''kb'' [chunk_a, chunk_b] Full 1 empty_index))))
     = 0
   \<and> num_deleted (fst (reconcile sample_caps ''kb'' [chunk_a, chunk_b] Full 2
                    (snd (reconcile sample_caps ''kb'' [chunk_a, chunk_b] Full 1 empty_index))))
     = 0
   \<and> num_skipped (fst (reconcile sample_caps ''kb'' [chunk_a, chunk_b] Full 2
                    (snd (reconcile sample_caps ''kb'' [chunk_a, chunk_b] Full 1 empty_index))))
     = 2
   \<and> vectors (snd (reconcile sample_caps ''kb'' [chunk_a, chunk_b] Full 2
                    (snd (reconcile sample_caps ''kb'' [chunk_a, chunk_b] Full 1 empty_index))))
     = vectors (snd (reconcile sample_caps ''kb'' [chunk_a, chunk_b] Full 1 empty_index))"
proof -
  have h: "\<forall>k e. fmlookup (ledger empty_index) k = Some e \<and> group_id e = ''kb''
             \<longrightarrow> last_seen e < 1"
    by (simp add: empty_index_def)
  from repeated_run_idempotent [OF h, of sample_caps "[chunk_a, chunk_b]" 2]
  show ?thesis by simp
qed

end
